theory Spec2Isabelle
  imports Main "HOL-Library.Char_ord" "HOL-Library.List_Lexorder" "HOL-Library.Multiset"
begin

chapter \<open>The tag-helper generator and the load-balancer listener resource\<close>

section \<open>The tag-helper generator (generators/servicetags/main.go)\<close>

subsection \<open>The two static lists of service names\<close>

text \<open>
  \<^verbatim>\<open>sliceServiceNames\<close>: the services whose tags are a slice of structs
  (\<^verbatim>\<open>[]*athena.Tag\<close>, \<^verbatim>\<open>[]*ec2.Tag\<close>, ...). The entry
  \<^verbatim>\<open>"autoscaling"\<close> is commented out in the source and is no element of the list.
\<close>

definition sliceServiceNames :: "string list" where
  "sliceServiceNames =
    [''acm'', ''acmpca'', ''appmesh'', ''athena'', ''cloud9'', ''cloudformation'',
     ''cloudfront'', ''cloudhsmv2'', ''cloudtrail'', ''cloudwatch'',
     ''cloudwatchevents'', ''codebuild'', ''codedeploy'', ''codepipeline'',
     ''configservice'', ''databasemigrationservice'', ''datapipeline'', ''datasync'',
     ''dax'', ''devicefarm'', ''directconnect'', ''directoryservice'', ''docdb'',
     ''dynamodb'', ''ec2'', ''ecr'', ''ecs'', ''efs'', ''elasticache'',
     ''elasticbeanstalk'', ''elasticsearchservice'', ''elb'', ''elbv2'', ''emr'',
     ''firehose'', ''fms'', ''fsx'', ''gamelift'', ''globalaccelerator'', ''iam'',
     ''inspector'', ''iot'', ''iotanalytics'', ''iotevents'', ''kinesis'',
     ''kinesisanalytics'', ''kinesisanalyticsv2'', ''kms'', ''licensemanager'',
     ''lightsail'', ''mediastore'', ''neptune'', ''organizations'', ''quicksight'',
     ''ram'', ''rds'', ''redshift'', ''route53'', ''route53resolver'', ''s3'',
     ''sagemaker'', ''secretsmanager'', ''serverlessapplicationrepository'',
     ''servicecatalog'', ''sfn'', ''sns'', ''ssm'', ''storagegateway'', ''swf'',
     ''transfer'', ''waf'', ''wafregional'', ''wafv2'', ''workspaces'']"

text \<open>
  \<^verbatim>\<open>mapServiceNames\<close>: the services whose tags are a \<^verbatim>\<open>map[string]*string\<close>.
  The list is written here in the order of the source, which is not sorted.
\<close>

definition mapServiceNames :: "string list" where
  "mapServiceNames =
    [''accessanalyzer'', ''amplify'', ''apigateway'', ''apigatewayv2'', ''appstream'',
     ''appsync'', ''backup'', ''batch'', ''cloudwatchlogs'', ''codecommit'',
     ''codestarnotifications'', ''cognitoidentity'', ''cognitoidentityprovider'',
     ''dataexchange'', ''dlm'', ''eks'', ''glacier'', ''glue'', ''guardduty'',
     ''greengrass'', ''kafka'', ''kinesisvideo'', ''imagebuilder'', ''lambda'',
     ''mediaconnect'', ''mediaconvert'', ''medialive'', ''mediapackage'', ''mq'',
     ''opsworks'', ''qldb'', ''pinpoint'', ''resourcegroups'', ''securityhub'', ''sqs'']"

record TemplateData =
  MapServiceNames :: "string list"
  SliceServiceNames :: "string list"

subsection \<open>The service customizations of main.go\<close>

definition ServiceTagKeyType :: "string \<Rightarrow> string" where
  "ServiceTagKeyType serviceName =
     (if serviceName = ''elb'' then ''TagKeyOnly'' else [])"

definition ServiceTagType :: "string \<Rightarrow> string" where
  "ServiceTagType serviceName =
     (if serviceName = ''appmesh'' then ''TagRef''
      else if serviceName = ''datasync'' then ''TagListEntry''
      else if serviceName = ''fms'' then ''ResourceTag''
      else if serviceName = ''swf'' then ''ResourceTag''
      else ''Tag'')"

definition ServiceTagTypeKeyField :: "string \<Rightarrow> string" where
  "ServiceTagTypeKeyField serviceName =
     (if serviceName = ''kms'' then ''TagKey'' else ''Key'')"

definition ServiceTagTypeValueField :: "string \<Rightarrow> string" where
  "ServiceTagTypeValueField serviceName =
     (if serviceName = ''kms'' then ''TagValue'' else ''Value'')"

subsection \<open>Library functions the generator calls\<close>

text \<open>
  \<^verbatim>\<open>sort.Strings\<close> sorts a slice of strings in place into ascending order, Go
  comparing strings byte by byte. The order of \<^typ>\<open>string\<close> used here is the
  lexicographic order of the bytes; on a linear order the ascending arrangement of a
  list is unique, so it does not matter which sorting algorithm produces it.
\<close>

definition sort_Strings :: "string list \<Rightarrow> string list" where
  "sort_Strings xs = sort xs"

text \<open>
  \<^verbatim>\<open>strings.Title\<close> maps the first letter of every word to its title case, a word
  starting after a separator. The model covers ASCII input, where the letters, the
  digits and the underscore are no separators; a byte above 0x7F is taken as no
  separator and left unchanged. All service names are ASCII.
\<close>

definition isSeparator :: "char \<Rightarrow> bool" where
  "isSeparator r =
     (if (of_char r :: nat) \<le> 0x7F then
        \<not> ((CHR ''0'' \<le> r \<and> r \<le> CHR ''9'') \<or> (CHR ''a'' \<le> r \<and> r \<le> CHR ''z'')
           \<or> (CHR ''A'' \<le> r \<and> r \<le> CHR ''Z'') \<or> r = CHR ''_'')
      else False)"

definition ToTitle :: "char \<Rightarrow> char" where
  "ToTitle r =
     (case map_of (zip ''abcdefghijklmnopqrstuvwxyz'' ''ABCDEFGHIJKLMNOPQRSTUVWXYZ'') r of
        Some u \<Rightarrow> u
      | None \<Rightarrow> r)"

fun Title_from :: "char \<Rightarrow> string \<Rightarrow> string" where
  "Title_from prev [] = []"
| "Title_from prev (r # s) = (if isSeparator prev then ToTitle r else r) # Title_from r s"

definition Title :: "string \<Rightarrow> string" where
  "Title s = Title_from (CHR '' '') s"

text \<open>
  \<^verbatim>\<open>aws.StringValue\<close> and \<^verbatim>\<open>aws.Int64Value\<close> of the SDK read a pointer, a nil
  pointer as the zero value.
\<close>

definition StringValue :: "string option \<Rightarrow> string" where
  "StringValue p = (case p of None \<Rightarrow> [] | Some v \<Rightarrow> v)"

definition Int64Value :: "int option \<Rightarrow> int" where
  "Int64Value p = (case p of None \<Rightarrow> 0 | Some v \<Rightarrow> v)"

subsection \<open>The template\<close>

text \<open>
  The generated file is kept as its parts: the package clause, the import paths and the
  function declarations in the order the template writes them. A function declaration
  is its doc comment, its receiver (empty for a plain function), its name, its
  parameter list, its result type and the lines of its body. The layout between the
  parts (blank lines, indentation) is what \<^verbatim>\<open>format.Source\<close> normalises afterwards;
  the comments of the template that head the file and its two sections are left out.
\<close>

record go_func =
  doc :: string
  receiver :: string
  fname :: string
  parameters :: string
  result :: string
  body :: "string list"

record gen_file =
  package :: string
  import_paths :: "string list"
  funcs :: "go_func list"


text \<open>The two functions written for each element of \<^verbatim>\<open>.MapServiceNames\<close>.\<close>

definition mapTagsFunc :: "string \<Rightarrow> go_func" where
  "mapTagsFunc n =
     \<lparr>doc = ''// '' @ Title n @ ''Tags returns '' @ n @ '' service tags.'',
      receiver = ''tags KeyValueTags'',
      fname = Title n @ ''Tags'',
      parameters = [],
      result = ''map[string]*string'',
      body = [''return aws.StringMap(tags.Map())'']\<rparr>"

definition mapKeyValueTagsFunc :: "string \<Rightarrow> go_func" where
  "mapKeyValueTagsFunc n =
     \<lparr>doc = ''// '' @ Title n @ ''KeyValueTags creates KeyValueTags from '' @ n
              @ '' service tags.'',
      receiver = [],
      fname = Title n @ ''KeyValueTags'',
      parameters = ''tags map[string]*string'',
      result = ''KeyValueTags'',
      body = [''return New(tags)'']\<rparr>"

definition mapServiceFuncs :: "string \<Rightarrow> go_func list" where
  "mapServiceFuncs n = [mapTagsFunc n, mapKeyValueTagsFunc n]"

text \<open>
  The functions written for each element of \<^verbatim>\<open>.SliceServiceNames\<close>. The package of
  the tag type comes from \<^verbatim>\<open>keyvaluetags.ServiceTagPackage\<close>, which is not among the
  sources: it is the parameter \<open>TagPackage\<close>.
\<close>

definition sliceTagKeysFunc :: "(string \<Rightarrow> string) \<Rightarrow> string \<Rightarrow> go_func" where
  "sliceTagKeysFunc TagPackage n =
     (let T = TagPackage n @ ''.'' @ ServiceTagKeyType n in
      \<lparr>doc = ''// '' @ Title n @ ''TagKeys returns '' @ n @ '' service tag keys.'',
       receiver = ''tags KeyValueTags'',
       fname = Title n @ ''TagKeys'',
       parameters = [],
       result = ''[]*'' @ T,
       body =
         [''result := make([]*'' @ T @ '', 0, len(tags))'',
          ''for k := range tags.Map() {'',
          ''tagKey := &'' @ T @ ''{'',
          ServiceTagTypeKeyField n @ '': aws.String(k),'',
          ''}'',
          ''result = append(result, tagKey)'',
          ''}'',
          ''return result'']\<rparr>)"

definition sliceTagsFunc :: "(string \<Rightarrow> string) \<Rightarrow> string \<Rightarrow> go_func" where
  "sliceTagsFunc TagPackage n =
     (let T = TagPackage n @ ''.'' @ ServiceTagType n in
      \<lparr>doc = ''// '' @ Title n @ ''Tags returns '' @ n @ '' service tags.'',
       receiver = ''tags KeyValueTags'',
       fname = Title n @ ''Tags'',
       parameters = [],
       result = ''[]*'' @ T,
       body =
         [''result := make([]*'' @ T @ '', 0, len(tags))'',
          ''for k, v := range tags.Map() {'',
          ''tag := &'' @ T @ ''{'',
          ServiceTagTypeKeyField n @ '': aws.String(k),'',
          ServiceTagTypeValueField n @ '': aws.String(v),'',
          ''}'',
          ''result = append(result, tag)'',
          ''}'',
          ''return result'']\<rparr>)"

definition sliceKeyValueTagsFunc :: "(string \<Rightarrow> string) \<Rightarrow> string \<Rightarrow> go_func" where
  "sliceKeyValueTagsFunc TagPackage n =
     (let T = TagPackage n @ ''.'' @ ServiceTagType n in
      \<lparr>doc = ''// '' @ Title n @ ''KeyValueTags creates KeyValueTags from '' @ n
               @ '' service tags.'',
       receiver = [],
       fname = Title n @ ''KeyValueTags'',
       parameters = ''tags []*'' @ T,
       result = ''KeyValueTags'',
       body =
         [''m := make(map[string]*string, len(tags))'',
          ''for _, tag := range tags {'',
          ''m[aws.StringValue(tag.'' @ ServiceTagTypeKeyField n @ '')] = tag.''
             @ ServiceTagTypeValueField n,
          ''}'',
          ''return New(m)'']\<rparr>)"

definition sliceServiceFuncs :: "(string \<Rightarrow> string) \<Rightarrow> string \<Rightarrow> go_func list" where
  "sliceServiceFuncs TagPackage n =
     (if ServiceTagKeyType n \<noteq> [] then [sliceTagKeysFunc TagPackage n] else [])
     @ [sliceTagsFunc TagPackage n, sliceKeyValueTagsFunc TagPackage n]"

text \<open>
  \<^verbatim>\<open>templateBody\<close>, executed on the template data: the import block ranges over the
  slice services whose package has the service's own name, the map section over
  \<^verbatim>\<open>.MapServiceNames\<close> and the slice section over \<^verbatim>\<open>.SliceServiceNames\<close>.
\<close>

definition templateBody :: "(string \<Rightarrow> string) \<Rightarrow> TemplateData \<Rightarrow> gen_file" where
  "templateBody TagPackage data =
     \<lparr>package = ''keyvaluetags'',
      import_paths =
        ''github.com/aws/aws-sdk-go/aws''
        # map (\<lambda>n. ''github.com/aws/aws-sdk-go/service/'' @ n)
            (filter (\<lambda>n. n = TagPackage n) (SliceServiceNames data)),
      funcs =
        concat (map mapServiceFuncs (MapServiceNames data))
        @ concat (map (sliceServiceFuncs TagPackage) (SliceServiceNames data))\<rparr>"

subsection \<open>main\<close>

text \<open>
  What \<^verbatim>\<open>main\<close> needs from outside: the package function of the template's function
  map, \<^verbatim>\<open>format.Source\<close> (an error or the formatted bytes), and whether creating
  and writing the file fail. Every \<^verbatim>\<open>log.Fatalf\<close> of the source is a \<open>fatal\<close>
  result. Parsing and executing the fixed template raise no error in the model.
\<close>

datatype fatal = ErrFormatting string | ErrCreatingFile string | ErrWritingFile string

record environment =
  ServiceTagPackage :: "string \<Rightarrow> string"
  format_Source :: "gen_file \<Rightarrow> string + string"
  os_Create :: "string option"
  f_Write :: "string option"

definition filename :: string where
  "filename = ''service_tags_gen.go''"

text \<open>
  The two lists are package variables that \<^verbatim>\<open>main\<close> sorts in place, so the run is
  a function of their contents: \<open>generate\<close> is the body of \<^verbatim>\<open>main\<close> over any two
  lists, \<open>buffer\<close> what the template writes into the buffer, and \<open>main\<close> the run
  over the lists of the source. The result is the name and the contents of the file
  written.
\<close>

definition sortedTemplateData :: "string list \<Rightarrow> string list \<Rightarrow> TemplateData" where
  "sortedTemplateData maps slices =
     \<lparr>MapServiceNames = sort_Strings maps, SliceServiceNames = sort_Strings slices\<rparr>"

definition buffer :: "(string \<Rightarrow> string) \<Rightarrow> string list \<Rightarrow> string list \<Rightarrow> gen_file" where
  "buffer TagPackage maps slices = templateBody TagPackage (sortedTemplateData maps slices)"

definition generate :: "environment \<Rightarrow> string list \<Rightarrow> string list \<Rightarrow> fatal + string \<times> string" where
  "generate env maps slices =
     (case format_Source env (buffer (ServiceTagPackage env) maps slices) of
        Inl err \<Rightarrow> Inl (ErrFormatting err)
      | Inr generatedFileContents \<Rightarrow>
          (case os_Create env of
             Some err \<Rightarrow> Inl (ErrCreatingFile err)
           | None \<Rightarrow>
               (case f_Write env of
                  Some err \<Rightarrow> Inl (ErrWritingFile err)
                | None \<Rightarrow> Inr (filename, generatedFileContents))))"

definition main :: "environment \<Rightarrow> fatal + string \<times> string" where
  "main env = generate env mapServiceNames sliceServiceNames"

subsection \<open>What the generated slice functions compute\<close>

text \<open>
  A value of a tag struct type of the SDK: the name of its type and the fields that a
  composite literal sets, each a \<^verbatim>\<open>*string\<close>; a field that is not set is \<^verbatim>\<open>nil\<close>.
  A slice of pointers to structs is a list of options, \<open>None\<close> being a nil pointer.
\<close>

record tag_struct =
  struct_type :: string
  struct_fields :: "(string \<times> string option) list"

definition field :: "tag_struct \<Rightarrow> string \<Rightarrow> string option" where
  "field tag name = (case map_of (struct_fields tag) name of None \<Rightarrow> None | Some p \<Rightarrow> p)"


text \<open>
  The generated function \<^verbatim>\<open>{{ . | Title }}KeyValueTags\<close> of the service \<open>n\<close>: the
  loop fills the map \<^verbatim>\<open>m\<close> of type \<^verbatim>\<open>map[string]*string\<close>, and reading a field
  of a nil element panics (\<open>None\<close>). \<^verbatim>\<open>New\<close>, which builds the container from the
  map, is not among the sources: it is a parameter.
\<close>

fun collectTags ::
  "string \<Rightarrow> (string \<rightharpoonup> string option) \<Rightarrow> tag_struct option list \<Rightarrow> (string \<rightharpoonup> string option) option" where
  "collectTags n m [] = Some m"
| "collectTags n m (None # tags) = None"
| "collectTags n m (Some tag # tags) =
     collectTags n
       (m(StringValue (field tag (ServiceTagTypeKeyField n)) \<mapsto> field tag (ServiceTagTypeValueField n)))
       tags"

definition ServiceKeyValueTags ::
  "((string \<rightharpoonup> string option) \<Rightarrow> 'c) \<Rightarrow> string \<Rightarrow> tag_struct option list \<Rightarrow> 'c option" where
  "ServiceKeyValueTags New n tags = map_option New (collectTags n Map.empty tags)"


definition plainNew :: "(string \<rightharpoonup> string option) \<Rightarrow> (string \<rightharpoonup> string)" where
  "plainNew m = (\<lambda>k. case m k of Some (Some v) \<Rightarrow> Some v | _ \<Rightarrow> None)"

section \<open>The load-balancer listener resource\<close>

subsection \<open>Time, errors and results\<close>

text \<open>
  A \<^verbatim>\<open>time.Duration\<close> counts nanoseconds. Every call of the remote API reports
  the time it took, and the waiting loops add up the time that has passed, so time
  only moves forward.
\<close>

definition Millisecond :: nat where
  "Millisecond = 1000000"

definition Second :: nat where
  "Second = 1000 * Millisecond"

definition Minute :: nat where
  "Minute = 60 * Second"

text \<open>
  A Go \<^verbatim>\<open>error\<close> value: an \<^verbatim>\<open>awserr.Error\<close> with its code and message, any other
  error of the API client, or one of the errors this file and its library build. The
  constructors written for a \<^verbatim>\<open>fmt.Errorf\<close> keep the arguments of the format
  string:
  \<^item> \<open>ErrorCreating err\<close>: \<^verbatim>\<open>"Error creating LB Listener: %s"\<close>;
  \<^item> \<open>ErrorNoListeners\<close>: \<^verbatim>\<open>"Error creating LB Listener: no listeners returned in response"\<close>;
  \<^item> \<open>ErrorWaiting id\<close>: \<^verbatim>\<open>"Error waiting for LB Listener (%s) to exist"\<close>;
  \<^item> \<open>ErrorRetrieving err\<close>: \<^verbatim>\<open>"Error retrieving Listener: %s"\<close>;
  \<^item> \<open>ErrorRetrievingCount id n\<close>: \<^verbatim>\<open>"Error retrieving Listener %q (expected 1, got %d)"\<close>;
  \<^item> \<open>ErrorModifying err\<close>: \<^verbatim>\<open>"Error modifying LB Listener: %s"\<close>;
  \<^item> \<open>ErrorDeleting err\<close>: \<^verbatim>\<open>"Error deleting Listener: %s"\<close>;
  \<^item> \<open>TimeoutError\<close> and \<open>UnexpectedStateError\<close>: the errors of the waiting loop.
\<close>

datatype error =
    AWSError string string
  | OtherError string
  | ErrorCreating error
  | ErrorNoListeners
  | ErrorWaiting string
  | ErrorRetrieving error
  | ErrorRetrievingCount string nat
  | ErrorModifying error
  | ErrorDeleting error
  | TimeoutError
  | UnexpectedStateError string

text \<open>
  What a lifecycle function does: it returns \<^verbatim>\<open>nil\<close>, returns an error, or panics
  on a nil pointer.
\<close>

datatype outcome = ReturnNil | ReturnError error | Panic

text \<open>\<^verbatim>\<open>strings.Contains\<close>.\<close>

fun Contains :: "string \<Rightarrow> string \<Rightarrow> bool" where
  "Contains [] substr = (substr = [])"
| "Contains (c # s) substr = (take (length substr) (c # s) = substr \<or> Contains s substr)"

text \<open>
  Modelled from the spec: \<^verbatim>\<open>isAWSErr\<close> is a helper of the provider that is not among
  the sources. The spec speaks of a retry "on a named transient error code": the error
  is an \<^verbatim>\<open>awserr.Error\<close> with the given code whose message contains the given text
  (every caller here passes the empty text).
\<close>

fun isAWSErr :: "error \<Rightarrow> string \<Rightarrow> string \<Rightarrow> bool" where
  "isAWSErr (AWSError c m) code message = (c = code \<and> Contains m message)"
| "isAWSErr _ code message = False"

text \<open>The two error codes of the \<^verbatim>\<open>elbv2\<close> package the resource names.\<close>

definition ErrCodeCertificateNotFoundException :: string where
  "ErrCodeCertificateNotFoundException = ''CertificateNotFound''"

definition ErrCodeListenerNotFoundException :: string where
  "ErrCodeListenerNotFoundException = ''ListenerNotFound''"

subsection \<open>The types of the API client\<close>

text \<open>
  A field of pointer type is an \<open>option\<close>, \<open>None\<close> being \<^verbatim>\<open>nil\<close>. The elements of
  \<^verbatim>\<open>Listeners\<close> and \<^verbatim>\<open>DefaultActions\<close> are taken to be non-nil; those of
  \<^verbatim>\<open>Certificates\<close> may be nil, which the source tests.
\<close>

record Certificate =
  CertificateArn :: "string option"

record Action =
  TargetGroupArn :: "string option"
  Type :: "string option"

record Listener =
  ListenerArn :: "string option"
  LoadBalancerArn :: "string option"
  Port :: "int option"
  Protocol :: "string option"
  SslPolicy :: "string option"
  Certificates :: "Certificate option list"
  DefaultActions :: "Action list"

record CreateListenerInput =
  c_LoadBalancerArn :: "string option"
  c_Port :: "int option"
  c_Protocol :: "string option"
  c_SslPolicy :: "string option"
  c_Certificates :: "Certificate option list"
  c_DefaultActions :: "Action list"

record ModifyListenerInput =
  m_ListenerArn :: "string option"
  m_Port :: "int option"
  m_Protocol :: "string option"
  m_SslPolicy :: "string option"
  m_Certificates :: "Certificate option list"
  m_DefaultActions :: "Action list"

record ListenersOutput =
  Listeners :: "Listener list"

text \<open>
  The connection: each operation takes the state of the remote service and returns an
  error or its output, the time the call took and the new state. The response of
  \<^verbatim>\<open>DescribeListeners\<close> is a pointer the source tests against \<^verbatim>\<open>nil\<close>.
\<close>

record 's ELBV2 =
  CreateListener :: "CreateListenerInput \<Rightarrow> 's \<Rightarrow> (error + ListenersOutput) \<times> nat \<times> 's"
  DescribeListeners :: "string list \<Rightarrow> 's \<Rightarrow> (error + ListenersOutput option) \<times> nat \<times> 's"
  ModifyListener :: "ModifyListenerInput \<Rightarrow> 's \<Rightarrow> (error + ListenersOutput) \<times> nat \<times> 's"
  DeleteListener :: "string \<Rightarrow> 's \<Rightarrow> (error + unit) \<times> nat \<times> 's"

subsection \<open>The resource data\<close>

text \<open>
  \<^verbatim>\<open>schema.ResourceData\<close> with the attributes of the schema; \<open>d_Id\<close> is what
  \<^verbatim>\<open>d.Id()\<close> reads and \<^verbatim>\<open>d.SetId\<close> writes. An element of \<open>default_action\<close> is
  its \<^verbatim>\<open>target_group_arn\<close> and its \<^verbatim>\<open>type\<close>. \<^verbatim>\<open>d.GetOk\<close> reports a string
  attribute as set when it is not empty.
\<close>

record ResourceData =
  d_Id :: string
  arn :: string
  load_balancer_arn :: string
  port :: int
  protocol :: string
  ssl_policy :: string
  certificate_arn :: string
  default_action :: "(string \<times> string) list"

definition GetOk :: "string \<Rightarrow> bool" where
  "GetOk v = (v \<noteq> [])"

subsection \<open>The retry and the wait of the resource library\<close>

text \<open>
  Modelled from the spec: the time between two calls of the loops of the helper
  library, which is not among the sources. The spec says that a describe call is polled
  "every interval"; the model takes half a second.
\<close>

definition interval :: nat where
  "interval = 500 * Millisecond"

datatype RetryError = RetryableError error | NonRetryableError error

text \<open>
  Modelled from the spec: \<^verbatim>\<open>resource.Retry\<close> belongs to the helper library and is not
  among the sources. The spec describes it: "retry for up to 5 minutes on a named
  transient error code", "a fixed-policy retry-with-timeout wrapper around synchronous
  API calls". The loop calls the function; it ends when the function returns
  \<^verbatim>\<open>nil\<close> or an error that is not retryable, and also on a retryable error once the
  timeout has passed, with that error; otherwise it sleeps for the interval and calls
  again. A retried function returns a \<^verbatim>\<open>*resource.RetryError\<close>, or \<^verbatim>\<open>nil\<close> together
  with what it assigned to the variables it captured (\<open>Inr\<close>). The result comes with
  the time that has passed and the new state.
\<close>

function Retry_loop ::
  "nat \<Rightarrow> nat \<Rightarrow> ('s \<Rightarrow> (RetryError + 'a) \<times> nat \<times> 's) \<Rightarrow> 's \<Rightarrow> (error + 'a) \<times> nat \<times> 's" where
  "Retry_loop timeout elapsed f s =
     (case f s of (r, t, s') \<Rightarrow>
        (case r of
           Inr v \<Rightarrow> (Inr v, elapsed + t, s')
         | Inl (NonRetryableError err) \<Rightarrow> (Inl err, elapsed + t, s')
         | Inl (RetryableError err) \<Rightarrow>
             if timeout \<le> elapsed + t + interval then (Inl err, elapsed + t, s')
             else Retry_loop timeout (elapsed + t + interval) f s'))"
  by pat_completeness auto
termination
  by (relation "measure (\<lambda>(timeout, elapsed, f, s). timeout - elapsed)")
     (auto simp: interval_def Millisecond_def)

text \<open>
  Modelled from the spec: \<^verbatim>\<open>resource.Retry\<close> (not among the sources) is the loop
  started with no time passed.
\<close>

definition Retry ::
  "nat \<Rightarrow> ('s \<Rightarrow> (RetryError + 'a) \<times> nat \<times> 's) \<Rightarrow> 's \<Rightarrow> (error + 'a) \<times> nat \<times> 's" where
  "Retry timeout f s = Retry_loop timeout 0 f s"

text \<open>
  The fields of \<^verbatim>\<open>resource.StateChangeConf\<close> the resource sets. A refresh function
  returns the object (or \<^verbatim>\<open>nil\<close>), its state and an error.
\<close>

record ('s, 'a) StateChangeConf =
  Pending :: "string list"
  Target :: "string list"
  Refresh :: "'s \<Rightarrow> ('a option \<times> string \<times> error option) \<times> nat \<times> 's"
  Timeout :: nat

text \<open>
  Modelled from the spec: \<^verbatim>\<open>WaitForState\<close> belongs to the helper library and is not
  among the sources. The spec describes it: "poll a describe-call every interval until
  the object's existence is observed, with a 3-minute timeout". After each call of the
  refresh function the wait ends with the error when the function returns one, with a
  timeout error when the timeout has passed while the call was under way, with the
  object when the state is a target state, with an error when the state is neither a
  target nor a pending state, and with a timeout error when the timeout passes before
  the next call is due; otherwise it sleeps for the interval and polls again.
\<close>

function WaitForState_loop ::
  "('s, 'a) StateChangeConf \<Rightarrow> nat \<Rightarrow> 's \<Rightarrow> ('a option \<times> error option) \<times> nat \<times> 's" where
  "WaitForState_loop conf elapsed s =
     (case Refresh conf s of ((res, currentState, err), t, s') \<Rightarrow>
        (case err of
           Some e \<Rightarrow> ((None, Some e), elapsed + t, s')
         | None \<Rightarrow>
             if Timeout conf < elapsed + t
               then ((None, Some TimeoutError), elapsed + t, s')
             else if currentState \<in> set (Target conf) then ((res, None), elapsed + t, s')
             else if currentState \<notin> set (Pending conf)
               then ((None, Some (UnexpectedStateError currentState)), elapsed + t, s')
             else if Timeout conf \<le> elapsed + t + interval
               then ((None, Some TimeoutError), elapsed + t, s')
             else WaitForState_loop conf (elapsed + t + interval) s'))"
  by pat_completeness auto
termination
  by (relation "measure (\<lambda>(conf, elapsed, s). Timeout conf - elapsed)")
     (auto simp: interval_def Millisecond_def)

text \<open>
  Modelled from the spec: \<^verbatim>\<open>WaitForState\<close> (not among the sources) is the loop
  started with no time passed.
\<close>

definition WaitForState ::
  "('s, 'a) StateChangeConf \<Rightarrow> 's \<Rightarrow> ('a option \<times> error option) \<times> nat \<times> 's" where
  "WaitForState conf s = WaitForState_loop conf 0 s"

subsection \<open>The lifecycle functions\<close>

text \<open>\<^verbatim>\<open>resourceAwsLbListenerReadData\<close>: the attributes are set from the listener.\<close>

definition resourceAwsLbListenerReadData :: "ResourceData \<Rightarrow> Listener \<Rightarrow> ResourceData" where
  "resourceAwsLbListenerReadData d listener =
     (let d1 = d\<lparr>arn := StringValue (ListenerArn listener),
                 load_balancer_arn := StringValue (LoadBalancerArn listener),
                 port := Int64Value (Port listener),
                 protocol := StringValue (Protocol listener),
                 ssl_policy := StringValue (SslPolicy listener)\<rparr>;
          d2 = (case Certificates listener of
                  [Some c] \<Rightarrow> d1\<lparr>certificate_arn := StringValue (CertificateArn c)\<rparr>
                | _ \<Rightarrow> d1)
      in d2\<lparr>default_action :=
              map (\<lambda>defaultAction.
                     (StringValue (TargetGroupArn defaultAction), StringValue (Type defaultAction)))
                (DefaultActions listener)\<rparr>)"

text \<open>
  \<^verbatim>\<open>resourceAwsLbListenerRefreshFunc\<close>: one call of \<^verbatim>\<open>DescribeListeners\<close>. A
  listener-not-found error is turned into a nil response without error.
\<close>

definition resourceAwsLbListenerRefreshFunc ::
  "'s ELBV2 \<Rightarrow> string \<Rightarrow> 's \<Rightarrow> (Listener option \<times> string \<times> error option) \<times> nat \<times> 's" where
  "resourceAwsLbListenerRefreshFunc conn id' s =
     (case DescribeListeners conn [id'] s of (r, t, s') \<Rightarrow>
        (case r of
           Inl err \<Rightarrow>
             if isAWSErr err ErrCodeListenerNotFoundException []
             then ((None, [], None), t, s')
             else ((None, [], Some (ErrorRetrieving err)), t, s')
         | Inr None \<Rightarrow> ((None, [], None), t, s')
         | Inr (Some resp) \<Rightarrow>
             if length (Listeners resp) \<noteq> 1
             then ((None, [], Some (ErrorRetrievingCount id' (length (Listeners resp)))), t, s')
             else ((Some (Listeners resp ! 0), ''exists'', None), t, s')))"

text \<open>The request of \<^verbatim>\<open>resourceAwsLbListenerCreate\<close>, built from the configuration.\<close>

definition certificatesOf :: "ResourceData \<Rightarrow> Certificate option list" where
  "certificatesOf d =
     (if GetOk (certificate_arn d) then [Some \<lparr>CertificateArn = Some (certificate_arn d)\<rparr>]
      else [])"

definition defaultActionsOf :: "ResourceData \<Rightarrow> Action list" where
  "defaultActionsOf d =
     (if length (default_action d) = 1
      then map (\<lambda>(target_group_arn, type).
                  \<lparr>TargetGroupArn = Some target_group_arn, Type = Some type\<rparr>)
             (default_action d)
      else [])"

definition createListenerInput :: "ResourceData \<Rightarrow> CreateListenerInput" where
  "createListenerInput d =
     \<lparr>c_LoadBalancerArn = Some (load_balancer_arn d),
      c_Port = Some (port d),
      c_Protocol = Some (protocol d),
      c_SslPolicy = (if GetOk (ssl_policy d) then Some (ssl_policy d) else None),
      c_Certificates = certificatesOf d,
      c_DefaultActions = defaultActionsOf d\<rparr>"

definition modifyListenerInput :: "ResourceData \<Rightarrow> ModifyListenerInput" where
  "modifyListenerInput d =
     \<lparr>m_ListenerArn = Some (d_Id d),
      m_Port = Some (port d),
      m_Protocol = Some (protocol d),
      m_SslPolicy = (if GetOk (ssl_policy d) then Some (ssl_policy d) else None),
      m_Certificates = certificatesOf d,
      m_DefaultActions = defaultActionsOf d\<rparr>"

text \<open>
  The function \<^verbatim>\<open>resourceAwsLbListenerCreate\<close> passes to \<^verbatim>\<open>resource.Retry\<close>: one
  call of \<^verbatim>\<open>CreateListener\<close>; the response is assigned to the captured \<^verbatim>\<open>resp\<close>.
\<close>

definition createRetryFunc ::
  "'s ELBV2 \<Rightarrow> CreateListenerInput \<Rightarrow> 's \<Rightarrow> (RetryError + ListenersOutput) \<times> nat \<times> 's" where
  "createRetryFunc elbconn params s =
     (case CreateListener elbconn params s of (r, t, s') \<Rightarrow>
        (case r of
           Inl err \<Rightarrow>
             if isAWSErr err ErrCodeCertificateNotFoundException []
             then (Inl (RetryableError err), t, s')
             else (Inl (NonRetryableError err), t, s')
         | Inr resp \<Rightarrow> (Inr resp, t, s')))"

text \<open>
  The rest of \<^verbatim>\<open>resourceAwsLbListenerCreate\<close> after a response: the test for an empty
  response, \<^verbatim>\<open>d.SetId\<close>, and the wait for the listener to exist.
\<close>

definition createWaitConf :: "'s ELBV2 \<Rightarrow> string \<Rightarrow> ('s, Listener) StateChangeConf" where
  "createWaitConf elbconn id' =
     \<lparr>Pending = [[]],
      Target = [''exists''],
      Refresh = resourceAwsLbListenerRefreshFunc elbconn id',
      Timeout = 3 * Minute\<rparr>"

definition resourceAwsLbListenerCreate ::
  "'s ELBV2 \<Rightarrow> ResourceData \<Rightarrow> 's \<Rightarrow> outcome \<times> ResourceData \<times> nat \<times> 's" where
  "resourceAwsLbListenerCreate elbconn d s =
     (let params = createListenerInput d in
      case Retry (5 * Minute) (createRetryFunc elbconn params) s of
        (Inl err, t, s') \<Rightarrow> (ReturnError (ErrorCreating err), d, t, s')
      | (Inr resp, t, s') \<Rightarrow>
          if length (Listeners resp) = 0 then (ReturnError ErrorNoListeners, d, t, s')
          else
            (case ListenerArn (Listeners resp ! 0) of
               None \<Rightarrow> (Panic, d, t, s')
             | Some listenerArn \<Rightarrow>
                 (let d' = d\<lparr>d_Id := listenerArn\<rparr> in
                  case WaitForState (createWaitConf elbconn (d_Id d')) s' of
                    ((lbRaw, Some err), t', s'') \<Rightarrow>
                      (ReturnError (ErrorWaiting (d_Id d')), d', t + t', s'')
                  | ((None, None), t', s'') \<Rightarrow> (Panic, d', t + t', s'')
                  | ((Some listener, None), t', s'') \<Rightarrow>
                      (ReturnNil, resourceAwsLbListenerReadData d' listener, t + t', s''))))"

definition resourceAwsLbListenerRead ::
  "'s ELBV2 \<Rightarrow> ResourceData \<Rightarrow> 's \<Rightarrow> outcome \<times> ResourceData \<times> nat \<times> 's" where
  "resourceAwsLbListenerRead elbconn d s =
     (case resourceAwsLbListenerRefreshFunc elbconn (d_Id d) s of
        ((lbRaw, state, Some err), t, s') \<Rightarrow>
          if isAWSErr err ErrCodeListenerNotFoundException []
          then (ReturnNil, d\<lparr>d_Id := []\<rparr>, t, s')
          else (ReturnError (ErrorRetrieving err), d, t, s')
      | ((None, state, None), t, s') \<Rightarrow> (ReturnNil, d\<lparr>d_Id := []\<rparr>, t, s')
      | ((Some listener, state, None), t, s') \<Rightarrow>
          (ReturnNil, resourceAwsLbListenerReadData d listener, t, s'))"

text \<open>
  The function \<^verbatim>\<open>resourceAwsLbListenerUpdate\<close> passes to \<^verbatim>\<open>resource.Retry\<close>: one
  call of \<^verbatim>\<open>ModifyListener\<close>, whose response is dropped.
\<close>

definition updateRetryFunc ::
  "'s ELBV2 \<Rightarrow> ModifyListenerInput \<Rightarrow> 's \<Rightarrow> (RetryError + unit) \<times> nat \<times> 's" where
  "updateRetryFunc elbconn params s =
     (case ModifyListener elbconn params s of (r, t, s') \<Rightarrow>
        (case r of
           Inl err \<Rightarrow>
             if isAWSErr err ErrCodeCertificateNotFoundException []
             then (Inl (RetryableError err), t, s')
             else (Inl (NonRetryableError err), t, s')
         | Inr resp \<Rightarrow> (Inr (), t, s')))"

definition resourceAwsLbListenerUpdate ::
  "'s ELBV2 \<Rightarrow> ResourceData \<Rightarrow> 's \<Rightarrow> outcome \<times> ResourceData \<times> nat \<times> 's" where
  "resourceAwsLbListenerUpdate elbconn d s =
     (let params = modifyListenerInput d in
      case Retry (5 * Minute) (updateRetryFunc elbconn params) s of
        (Inl err, t, s') \<Rightarrow> (ReturnError (ErrorModifying err), d, t, s')
      | (Inr u, t, s') \<Rightarrow>
          (case resourceAwsLbListenerRead elbconn d s' of
             (r, d', t', s'') \<Rightarrow> (r, d', t + t', s'')))"


subsection \<open>The retry policy in the words of the spec, and a scripted connection\<close>

text \<open>
  The spec's "fixed-policy retry-with-timeout wrapper": an error of the inner call is
  retryable exactly when it carries the certificate-not-found code; a response is
  passed on.
\<close>

definition certificateNotFoundPolicy :: "error + 'a \<Rightarrow> RetryError + 'a" where
  "certificateNotFoundPolicy r =
     (case r of
        Inl err \<Rightarrow>
          Inl (if isAWSErr err ErrCodeCertificateNotFoundException []
               then RetryableError err else NonRetryableError err)
      | Inr v \<Rightarrow> Inr v)"

text \<open>
  The error outcome of a call: its error, or that it returned without one, together
  with the time it took and the new state. The response of a call without error is
  left out.
\<close>

definition errorOutcome :: "('e + 'a) \<times> nat \<times> 's \<Rightarrow> ('e + unit) \<times> nat \<times> 's" where
  "errorOutcome c =
     (case c of (r, t, s') \<Rightarrow> ((case r of Inl err \<Rightarrow> Inl err | Inr v \<Rightarrow> Inr ()), t, s'))"

text \<open>
  A connection to run the lifecycle functions on: the state of the service is the
  number of calls made so far, every call takes the same given time, and what the call
  with a given number returns is read from a function for each operation.
\<close>

definition scriptedConn ::
  "nat \<Rightarrow> (nat \<Rightarrow> error + ListenersOutput) \<Rightarrow> (nat \<Rightarrow> error + ListenersOutput option)
   \<Rightarrow> (nat \<Rightarrow> error + ListenersOutput) \<Rightarrow> (nat \<Rightarrow> error + unit) \<Rightarrow> nat ELBV2" where
  "scriptedConn callTime create describe modify delete =
     \<lparr>CreateListener = (\<lambda>input n. (create n, callTime, Suc n)),
      DescribeListeners = (\<lambda>arns n. (describe n, callTime, Suc n)),
      ModifyListener = (\<lambda>input n. (modify n, callTime, Suc n)),
      DeleteListener = (\<lambda>listenerArn n. (delete n, callTime, Suc n))\<rparr>"

text \<open>
  The resource data of a listener that is planned and has no ID yet, and those of the
  same listener once it exists.
\<close>

definition newData :: ResourceData where
  "newData =
     \<lparr>d_Id = [], arn = [], load_balancer_arn = ''arn:lb/1'', port = 443,
      protocol = ''HTTPS'', ssl_policy = [], certificate_arn = ''arn:cert/1'',
      default_action = [(''arn:tg/1'', ''forward'')]\<rparr>"

definition exampleData :: ResourceData where
  "exampleData = newData\<lparr>d_Id := ''arn:listener/1''\<rparr>"

definition exampleListener :: Listener where
  "exampleListener =
     \<lparr>ListenerArn = Some ''arn:listener/1'', LoadBalancerArn = Some ''arn:lb/1'',
      Port = Some 443, Protocol = Some ''HTTPS'', SslPolicy = None,
      Certificates = [Some \<lparr>CertificateArn = Some ''arn:cert/1''\<rparr>],
      DefaultActions = [\<lparr>TargetGroupArn = Some ''arn:tg/1'', Type = Some ''forward''\<rparr>]\<rparr>"

definition certificateNotFound :: error where
  "certificateNotFound = AWSError ''CertificateNotFound'' ''Certificate not found''"

definition listenerNotFound :: error where
  "listenerNotFound = AWSError ''ListenerNotFound'' ''One or more listeners not found''"

definition validationError :: error where
  "validationError = AWSError ''ValidationError'' ''A port must be specified''"

definition unused :: "nat \<Rightarrow> error + 'a" where
  "unused n = Inl (OtherError ''not called'')"

section \<open>Properties of the generator\<close>

subsection \<open>The names and the functions written\<close>

lemma length_Title_from: "length (Title_from p s) = length s"
  by (induction s arbitrary: p) auto

lemma length_Title: "length (Title s) = length s"
  by (simp add: Title_def length_Title_from)

lemma doc_inj:
  assumes "a @ Title n @ b @ n @ c = a @ Title m @ b @ m @ c"
  shows "n = m"
proof -
  have "length (a @ Title n @ b @ n @ c) = length (a @ Title m @ b @ m @ c)"
    by (rule arg_cong[OF assms])
  then have len: "length n = length m" by (simp add: length_Title)
  have "(a @ Title n @ b) @ (n @ c) = (a @ Title m @ b) @ (m @ c)" using assms by simp
  moreover have "length (a @ Title n @ b) = length (a @ Title m @ b)" using len by (simp add: length_Title)
  ultimately have "n @ c = m @ c" by (meson append_eq_append_conv)
  then show ?thesis by simp
qed

lemma mapTagsFunc_inj: "mapTagsFunc n = mapTagsFunc m \<Longrightarrow> n = m"
proof -
  assume "mapTagsFunc n = mapTagsFunc m"
  then have "doc (mapTagsFunc n) = doc (mapTagsFunc m)" by simp
  then show "n = m" unfolding mapTagsFunc_def using doc_inj[of "''// ''" n "''Tags returns ''" "'' service tags.''" m] by simp
qed

lemma sliceTagsFunc_inj: "sliceTagsFunc P n = sliceTagsFunc Q m \<Longrightarrow> n = m"
proof -
  assume "sliceTagsFunc P n = sliceTagsFunc Q m"
  then have "doc (sliceTagsFunc P n) = doc (sliceTagsFunc Q m)" by simp
  then show "n = m" unfolding sliceTagsFunc_def Let_def using doc_inj[of "''// ''" n "''Tags returns ''" "'' service tags.''" m] by simp
qed

lemma in_funcs_cases:
  assumes "f \<in> set (funcs (templateBody P data))"
  shows "(\<exists>n \<in> set (MapServiceNames data). f = mapTagsFunc n \<or> f = mapKeyValueTagsFunc n)
       \<or> (\<exists>n \<in> set (SliceServiceNames data). f = sliceTagKeysFunc P n \<or> f = sliceTagsFunc P n \<or> f = sliceKeyValueTagsFunc P n)"
  using assms by (auto simp: templateBody_def mapServiceFuncs_def sliceServiceFuncs_def split: if_splits)

lemma mapTags_in_funcs:
  assumes "mapTagsFunc n \<in> set (funcs (templateBody P data))"
  shows "n \<in> set (MapServiceNames data)"
proof -
  have a: "mapTagsFunc n \<noteq> mapKeyValueTagsFunc m" for m
    by (simp add: mapTagsFunc_def mapKeyValueTagsFunc_def)
  have b: "mapTagsFunc n \<noteq> sliceTagKeysFunc P m" for m
    by (simp add: mapTagsFunc_def sliceTagKeysFunc_def Let_def)
  have c: "mapTagsFunc n \<noteq> sliceTagsFunc P m" for m
    by (simp add: mapTagsFunc_def sliceTagsFunc_def Let_def)
  have d: "mapTagsFunc n \<noteq> sliceKeyValueTagsFunc P m" for m
    by (simp add: mapTagsFunc_def sliceKeyValueTagsFunc_def Let_def)
  from in_funcs_cases[OF assms] a b c d obtain m where "m \<in> set (MapServiceNames data)" "mapTagsFunc n = mapTagsFunc m"
    by blast
  then show ?thesis using mapTagsFunc_inj by blast
qed

lemma sliceTags_in_funcs:
  assumes "sliceTagsFunc P n \<in> set (funcs (templateBody P data))"
  shows "n \<in> set (SliceServiceNames data)"
proof -
  have a: "sliceTagsFunc P n \<noteq> mapKeyValueTagsFunc m" for m
    by (simp add: sliceTagsFunc_def mapKeyValueTagsFunc_def Let_def)
  have b: "sliceTagsFunc P n \<noteq> sliceTagKeysFunc P m" for m
    by (simp add: sliceTagsFunc_def sliceTagKeysFunc_def Let_def)
  have c: "sliceTagsFunc P n \<noteq> mapTagsFunc m" for m
    by (simp add: mapTagsFunc_def sliceTagsFunc_def Let_def)
  have d: "sliceTagsFunc P n \<noteq> sliceKeyValueTagsFunc P m" for m
    by (simp add: sliceTagsFunc_def sliceKeyValueTagsFunc_def Let_def)
  from in_funcs_cases[OF assms] a b c d obtain m where "m \<in> set (SliceServiceNames data)" "sliceTagsFunc P n = sliceTagsFunc P m"
    by blast
  then show ?thesis using sliceTagsFunc_inj by blast
qed

lemma lists_disjoint: "set sliceServiceNames \<inter> set mapServiceNames = {}"
  unfolding sliceServiceNames_def mapServiceNames_def by simp

lemma sort_Strings_mset: "mset xs = mset ys \<Longrightarrow> sort_Strings xs = sort_Strings ys"
  unfolding sort_Strings_def by (metis mset_sort properties_for_sort sorted_sort)

lemma sorted_sort_Strings: "sorted (sort_Strings xs)"
  by (simp add: sort_Strings_def)

lemma mset_sort_Strings: "mset (sort_Strings xs) = mset xs"
  by (simp add: sort_Strings_def)

lemma sorted_small: "sort_Strings [''sqs'', ''guardduty'', ''greengrass'', ''mq''] = [''greengrass'', ''guardduty'', ''mq'', ''sqs'']"
  by (simp add: sort_Strings_def)
















subsection \<open>The claims about the generator\<close>



lemma generated_kms_functions:
  "fname (sliceTagsFunc P ''kms'') = ''KmsTags''
   \<and> result (sliceTagsFunc P ''kms'') = ''[]*'' @ P ''kms'' @ ''.Tag''
   \<and> fname (sliceKeyValueTagsFunc P ''kms'') = ''KmsKeyValueTags''
   \<and> parameters (sliceKeyValueTagsFunc P ''kms'') = ''tags []*'' @ P ''kms'' @ ''.Tag''
   \<and> body (sliceKeyValueTagsFunc P ''kms'') =
       [''m := make(map[string]*string, len(tags))'',
        ''for _, tag := range tags {'',
        ''m[aws.StringValue(tag.TagKey)] = tag.TagValue'',
        ''}'',
        ''return New(m)'']"
  by (simp add: sliceTagsFunc_def sliceKeyValueTagsFunc_def Title_def isSeparator_def ToTitle_def
      ServiceTagType_def ServiceTagTypeKeyField_def ServiceTagTypeValueField_def)

text \<open>
  Claim C6. No service name stands in both static lists, so for no service name are the
  conversion functions of both shapes written: the map-shape method of a name and the
  slice-shape method of the same name are never both among the functions of the
  generated file, whatever the package function is.
\<close>

theorem service_lists_disjoint: "set sliceServiceNames \<inter> set mapServiceNames = {}
   \<and> (\<forall>n. \<not> (mapTagsFunc n \<in> set (funcs (buffer P mapServiceNames sliceServiceNames))
          \<and> sliceTagsFunc P n \<in> set (funcs (buffer P mapServiceNames sliceServiceNames))))"
proof (intro conjI allI notI)
  show "set sliceServiceNames \<inter> set mapServiceNames = {}" by (rule lists_disjoint)
next
  fix n
  assume h: "mapTagsFunc n \<in> set (funcs (buffer P mapServiceNames sliceServiceNames))
          \<and> sliceTagsFunc P n \<in> set (funcs (buffer P mapServiceNames sliceServiceNames))"
  then have "n \<in> set (MapServiceNames (sortedTemplateData mapServiceNames sliceServiceNames))"
    "n \<in> set (SliceServiceNames (sortedTemplateData mapServiceNames sliceServiceNames))"
    unfolding buffer_def by (blast intro: mapTags_in_funcs sliceTags_in_funcs)+
  then have "n \<in> set mapServiceNames" "n \<in> set sliceServiceNames"
    by (simp_all add: sortedTemplateData_def sort_Strings_def)
  then show False using lists_disjoint by blast
qed



text \<open>
  The other way round the keys matter: of two structs with the same key the later one
  wins.
\<close>

lemma slice_duplicate_keys:
  "ServiceKeyValueTags plainNew ''ec2''
     [Some \<lparr>struct_type = ''ec2.Tag'', struct_fields = [(''Key'', Some ''a''), (''Value'', Some ''1'')]\<rparr>,
      Some \<lparr>struct_type = ''ec2.Tag'', struct_fields = [(''Key'', Some ''a''), (''Value'', Some ''2'')]\<rparr>]
   = Some (map_of [(''a'', ''2'')])"
  by (auto simp: ServiceKeyValueTags_def plainNew_def field_def StringValue_def
      ServiceTagTypeKeyField_def ServiceTagTypeValueField_def fun_eq_iff)

text \<open>
  Claim C9. A run is a function of the two lists and of what the environment answers,
  so two runs over the same lists agree. More than that, the order of the lists in the
  source does not matter: both lists reach the template sorted in ascending order,
  each a rearrangement of the list it comes from; the functions of the file are those
  of the map services in that order, followed by those of the slice services in that
  order. Hence a run over rearranged lists fills the buffer with the same contents and
  has the same result, the file contents included: the output depends on which names
  the lists hold, not on the order in which the source lists them.
\<close>

theorem generator_output_sorted_and_order_independent:
  "sorted (MapServiceNames (sortedTemplateData maps slices))
   \<and> sorted (SliceServiceNames (sortedTemplateData maps slices))
   \<and> mset (MapServiceNames (sortedTemplateData maps slices)) = mset maps
   \<and> mset (SliceServiceNames (sortedTemplateData maps slices)) = mset slices
   \<and> funcs (buffer P maps slices) =
       concat (map mapServiceFuncs (MapServiceNames (sortedTemplateData maps slices)))
       @ concat (map (sliceServiceFuncs P) (SliceServiceNames (sortedTemplateData maps slices)))
   \<and> (mset maps' = mset maps \<and> mset slices' = mset slices \<longrightarrow>
        buffer P maps' slices' = buffer P maps slices
        \<and> generate env maps' slices' = generate env maps slices)"
proof -
  have det: "buffer Q maps' slices' = buffer Q maps slices"
    if "mset maps' = mset maps" "mset slices' = mset slices" for Q
    using that unfolding buffer_def sortedTemplateData_def
    by (simp add: sort_Strings_mset[of maps' maps] sort_Strings_mset[of slices' slices])
  have "generate env maps' slices' = generate env maps slices"
    if "mset maps' = mset maps" "mset slices' = mset slices"
    unfolding generate_def using det[OF that] by simp
  then show ?thesis
    using det
    by (simp add: sortedTemplateData_def sorted_sort_Strings mset_sort_Strings buffer_def templateBody_def)
qed

text \<open>The run over the two lists of the source written backwards is the run of \<open>main\<close>.\<close>

theorem generator_output_sorted_and_order_independent_witness:
  "\<forall>env. generate env (rev mapServiceNames) (rev sliceServiceNames) = main env"
  using generator_output_sorted_and_order_independent[of "mapServiceNames" "sliceServiceNames" _ "rev mapServiceNames" "rev sliceServiceNames"]
  by (simp add: main_def)

section \<open>Properties of the listener resource\<close>

text \<open>
  The equations of the two loops are unfolded by hand, one turn at a time.
\<close>

declare Retry_loop.simps [simp del]
declare WaitForState_loop.simps [simp del]

subsection \<open>The refresh function and the two loops\<close>

lemma Contains_empty: "Contains s []"
  by (cases s) simp_all

lemma isAWSErr_code: "isAWSErr err code [] \<longleftrightarrow> (\<exists>m. err = AWSError code m)"
  by (cases err) (auto simp: Contains_empty)

lemma refresh_cases:
  assumes "DescribeListeners conn [id'] s = (r, t, s')"
  shows "resourceAwsLbListenerRefreshFunc conn id' s =
     (case r of
        Inl err \<Rightarrow>
          if isAWSErr err ErrCodeListenerNotFoundException [] then ((None, [], None), t, s')
          else ((None, [], Some (ErrorRetrieving err)), t, s')
      | Inr None \<Rightarrow> ((None, [], None), t, s')
      | Inr (Some resp) \<Rightarrow>
          if length (Listeners resp) = 1 then ((Some (Listeners resp ! 0), ''exists'', None), t, s')
          else ((None, [], Some (ErrorRetrievingCount id' (length (Listeners resp)))), t, s'))"
  using assms
  by (auto simp: resourceAwsLbListenerRefreshFunc_def split: sum.splits option.splits)

lemma createRetryFunc_policy:
  "createRetryFunc conn p s =
     (case CreateListener conn p s of (r, t, s') \<Rightarrow> (certificateNotFoundPolicy r, t, s'))"
proof -
  obtain r t s' where c: "CreateListener conn p s = (r, t, s')" by (cases "CreateListener conn p s")
  show ?thesis by (cases r) (simp_all add: createRetryFunc_def certificateNotFoundPolicy_def c)
qed

lemma updateRetryFunc_policy:
  "updateRetryFunc conn p s =
     (case ModifyListener conn p s of (r, t, s') \<Rightarrow>
        (certificateNotFoundPolicy (map_sum id (\<lambda>resp. ()) r), t, s'))"
proof -
  obtain r t s' where c: "ModifyListener conn p s = (r, t, s')" by (cases "ModifyListener conn p s")
  show ?thesis by (cases r) (simp_all add: updateRetryFunc_def certificateNotFoundPolicy_def c)
qed

lemma Retry_loop_success:
  "f s = (Inr v, t, s') \<Longrightarrow> Retry_loop T el f s = (Inr v, el + t, s')"
  by (subst Retry_loop.simps) simp

lemma Retry_loop_abort:
  "f s = (Inl (NonRetryableError err), t, s') \<Longrightarrow> Retry_loop T el f s = (Inl err, el + t, s')"
  by (subst Retry_loop.simps) simp

lemma Retry_loop_timeout:
  "f s = (Inl (RetryableError err), t, s') \<Longrightarrow> T \<le> el + t + interval \<Longrightarrow>
   Retry_loop T el f s = (Inl err, el + t, s')"
  by (subst Retry_loop.simps) simp

lemma Retry_loop_again:
  "f s = (Inl (RetryableError err), t, s') \<Longrightarrow> el + t + interval < T \<Longrightarrow>
   Retry_loop T el f s = Retry_loop T (el + t + interval) f s'"
  by (subst Retry_loop.simps) simp


lemma Retry_loop_all_retryable:
  assumes "\<forall>s. \<exists>e t s'. f s = (Inl (RetryableError e), t, s') \<and> P e"
  shows "\<exists>e t s'. Retry_loop T el f s = (Inl e, t, s') \<and> P e \<and> T \<le> t + interval"
  using assms
proof (induction T el f s rule: Retry_loop.induct)
  case (1 timeout elapsed f s)
  from "1.prems" obtain e t0 s0 where fs: "f s = (Inl (RetryableError e), t0, s0)" and pe: "P e"
    by blast
  show ?case
  proof (cases "timeout \<le> elapsed + t0 + interval")
    case True
    then show ?thesis
      using Retry_loop_timeout[of f s e t0 s0 timeout elapsed] fs pe by auto
  next
    case False
    then have "Retry_loop timeout elapsed f s = Retry_loop timeout (elapsed + t0 + interval) f s0"
      using fs by (simp add: Retry_loop_again)
    then show ?thesis
      using "1.IH"[OF fs[symmetric] refl refl refl False "1.prems"] by simp
  qed
qed

lemma Retry_loop_errorOutcome:
  assumes "\<forall>s. errorOutcome (f s) = errorOutcome (g s)"
  shows "errorOutcome (Retry_loop T el f s) = errorOutcome (Retry_loop T el g s)"
  using assms
proof (induction T el g s rule: Retry_loop.induct)
  case (1 timeout elapsed g s)
  obtain r t0 s0 where gs: "g s = (r, t0, s0)" by (cases "g s")
  obtain r' t1 s1 where fs: "f s = (r', t1, s1)" by (cases "f s")
  have eq: "errorOutcome (f s) = errorOutcome (g s)" using "1.prems" by blast
  then have ts: "t1 = t0" "s1 = s0" by (simp_all add: errorOutcome_def fs gs)
  show ?case
  proof (cases r)
    case (Inr v)
    then obtain v' where "r' = Inr v'" using eq by (cases r') (simp_all add: errorOutcome_def fs gs)
    then show ?thesis
      using Inr fs gs ts by (simp add: Retry_loop_success errorOutcome_def)
  next
    case (Inl re)
    then have r': "r' = Inl re" using eq by (cases r') (simp_all add: errorOutcome_def fs gs)
    show ?thesis
    proof (cases re)
      case (NonRetryableError e)
      then show ?thesis
        using Inl r' fs gs ts by (simp add: Retry_loop_abort errorOutcome_def)
    next
      case (RetryableError e)
      show ?thesis
      proof (cases "timeout \<le> elapsed + t0 + interval")
        case True
        then show ?thesis
          using Inl r' fs gs ts RetryableError by (simp add: Retry_loop_timeout errorOutcome_def)
      next
        case False
        then have "Retry_loop timeout elapsed g s = Retry_loop timeout (elapsed + t0 + interval) g s0"
          "Retry_loop timeout elapsed f s = Retry_loop timeout (elapsed + t0 + interval) f s0"
          using Inl r' fs gs ts RetryableError by (simp_all add: Retry_loop_again)
        then show ?thesis
          using "1.IH"[OF gs[symmetric] refl Inl RetryableError False "1.prems"] by simp
      qed
    qed
  qed
qed

lemma create_error:
  assumes "Retry (5 * Minute) (createRetryFunc conn (createListenerInput d)) s = (Inl e, t, s')"
  shows "resourceAwsLbListenerCreate conn d s = (ReturnError (ErrorCreating e), d, t, s')"
  using assms by (simp add: resourceAwsLbListenerCreate_def)

lemma create_ErrorCreating:
  assumes "resourceAwsLbListenerCreate conn d s = (ReturnError (ErrorCreating e), d', t, s')"
  shows "d' = d \<and> Retry (5 * Minute) (createRetryFunc conn (createListenerInput d)) s = (Inl e, t, s')"
  using assms
  by (auto simp: resourceAwsLbListenerCreate_def Let_def
      split: prod.splits sum.splits if_splits option.splits)

lemma update_ErrorModifying:
  assumes "resourceAwsLbListenerUpdate conn d s = (ReturnError (ErrorModifying e), d', t, s')"
  shows "d' = d \<and> Retry (5 * Minute) (updateRetryFunc conn (modifyListenerInput d)) s = (Inl e, t, s')"
proof -
  have "fst (resourceAwsLbListenerRead conn d s0) \<noteq> ReturnError (ErrorModifying e)" for s0
    by (auto simp: resourceAwsLbListenerRead_def split: prod.splits sum.splits if_splits option.splits)
  then have "\<And>s0 d0 t0 s1. resourceAwsLbListenerRead conn d s0 \<noteq> (ReturnError (ErrorModifying e), d0, t0, s1)"
    by (metis fst_conv)
  then show ?thesis
    using assms
    by (auto simp: resourceAwsLbListenerUpdate_def Let_def
        split: prod.splits sum.splits if_splits option.splits)
qed



lemma errorOutcome_Inl: "errorOutcome c = (Inl e, t, s') \<longleftrightarrow> c = (Inl e, t, s')"
  by (cases c) (auto simp: errorOutcome_def split: sum.splits)

lemma retryFuncs_errorOutcome:
  assumes "errorOutcome (CreateListener conn p s) = errorOutcome (ModifyListener conn' q s)"
  shows "errorOutcome (createRetryFunc conn p s) = errorOutcome (updateRetryFunc conn' q s)"
proof -
  obtain r t s' where c: "CreateListener conn p s = (r, t, s')" by (cases "CreateListener conn p s")
  obtain r' t' s'' where m: "ModifyListener conn' q s = (r', t', s'')" by (cases "ModifyListener conn' q s")
  show ?thesis
    using assms
    by (cases r; cases r') (simp_all add: c m errorOutcome_def createRetryFunc_def updateRetryFunc_def)
qed

lemma WaitForState_loop_success:
  assumes "WaitForState_loop conf el s = ((res, None), t, s2)"
  shows "\<exists>s0 t0 st0. Refresh conf s0 = ((res, st0, None), t0, s2)
           \<and> st0 \<in> set (Target conf) \<and> t \<le> Timeout conf"
  using assms
proof (induction conf el s rule: WaitForState_loop.induct)
  case (1 conf elapsed s)
  obtain res0 st0 err0 t0 s0 where r: "Refresh conf s = ((res0, st0, err0), t0, s0)"
    by (metis prod_cases3)
  show ?case
  proof (cases err0)
    case (Some e)
    then have "WaitForState_loop conf elapsed s = ((None, Some e), elapsed + t0, s0)"
      using r by (subst WaitForState_loop.simps) simp
    then show ?thesis using "1.prems" by simp
  next
    case None
    show ?thesis
    proof (cases "Timeout conf < elapsed + t0")
      case True
      then have "WaitForState_loop conf elapsed s = ((None, Some TimeoutError), elapsed + t0, s0)"
        using r None by (subst WaitForState_loop.simps) simp
      then show ?thesis using "1.prems" by simp
    next
      case inTime: False
      show ?thesis
      proof (cases "st0 \<in> set (Target conf)")
        case True
        then have "WaitForState_loop conf elapsed s = ((res0, None), elapsed + t0, s0)"
          using r None inTime by (subst WaitForState_loop.simps) simp
        then show ?thesis using "1.prems" r None True inTime
          by (intro exI[of _ s] exI[of _ t0] exI[of _ st0]) auto
      next
        case notTarget: False
        show ?thesis
        proof (cases "st0 \<in> set (Pending conf)")
          case False
          then have "WaitForState_loop conf elapsed s
              = ((None, Some (UnexpectedStateError st0)), elapsed + t0, s0)"
            using r None inTime notTarget by (subst WaitForState_loop.simps) simp
          then show ?thesis using "1.prems" by simp
        next
          case True
          show ?thesis
          proof (cases "Timeout conf \<le> elapsed + t0 + interval")
            case timeout: True
            then have "WaitForState_loop conf elapsed s
                = ((None, Some TimeoutError), elapsed + t0, s0)"
              using r None inTime notTarget True by (subst WaitForState_loop.simps) simp
            then show ?thesis using "1.prems" by simp
          next
            case False
            then have "WaitForState_loop conf elapsed s
                = WaitForState_loop conf (elapsed + t0 + interval) s0"
              using r None inTime notTarget True by (subst WaitForState_loop.simps) simp
            then show ?thesis
              using "1.IH"[OF r[symmetric] refl refl refl] None inTime notTarget True False "1.prems"
              by simp
          qed
        qed
      qed
    qed
  qed
qed

lemma WaitForState_loop_all_pending:
  assumes "\<forall>s. \<exists>res st t s'. Refresh conf s = ((res, st, None), t, s')
             \<and> st \<in> set (Pending conf) \<and> st \<notin> set (Target conf)"
  shows "\<exists>t s2. WaitForState_loop conf el s = ((None, Some TimeoutError), t, s2)"
  using assms
proof (induction conf el s rule: WaitForState_loop.induct)
  case (1 conf elapsed s)
  from "1.prems" obtain res0 st0 t0 s0 where r: "Refresh conf s = ((res0, st0, None), t0, s0)"
    and p: "st0 \<in> set (Pending conf)" and nt: "st0 \<notin> set (Target conf)"
    by blast
  show ?case
  proof (cases "Timeout conf < elapsed + t0")
    case True
    then have "WaitForState_loop conf elapsed s = ((None, Some TimeoutError), elapsed + t0, s0)"
      using r by (subst WaitForState_loop.simps) simp
    then show ?thesis by simp
  next
    case inTime: False
    show ?thesis
    proof (cases "Timeout conf \<le> elapsed + t0 + interval")
      case True
      then have "WaitForState_loop conf elapsed s = ((None, Some TimeoutError), elapsed + t0, s0)"
        using r p nt inTime by (subst WaitForState_loop.simps) simp
      then show ?thesis by simp
    next
      case False
      then have "WaitForState_loop conf elapsed s
          = WaitForState_loop conf (elapsed + t0 + interval) s0"
        using r p nt inTime by (subst WaitForState_loop.simps) simp
      then show ?thesis
        using "1.IH"[OF r[symmetric] refl refl refl] inTime nt p False "1.prems" by simp
    qed
  qed
qed

text \<open>One turn of the wait of Create, by what the describe call returns.\<close>

lemma create_wait_refresh_error:
  assumes "DescribeListeners conn [larn] s0 = (r, t0, s0')"
    and "case r of
           Inl e' \<Rightarrow> \<not> isAWSErr e' ErrCodeListenerNotFoundException []
         | Inr None \<Rightarrow> False
         | Inr (Some resp') \<Rightarrow> length (Listeners resp') \<noteq> 1"
  shows "\<exists>e. WaitForState_loop (createWaitConf conn larn) el s0 = ((None, Some e), el + t0, s0')"
proof -
  obtain e where "Refresh (createWaitConf conn larn) s0 = ((None, [], Some e), t0, s0')"
    using refresh_cases[OF assms(1)] assms(2)
    by (auto simp: createWaitConf_def split: sum.splits option.splits)
  then have "WaitForState_loop (createWaitConf conn larn) el s0 = ((None, Some e), el + t0, s0')"
    by (subst WaitForState_loop.simps) simp
  then show ?thesis by blast
qed

lemma create_wait_found:
  assumes "DescribeListeners conn [larn] s0 = (Inr (Some resp'), t0, s0')"
    and "length (Listeners resp') = 1"
  shows "el + t0 \<le> 3 * Minute \<Longrightarrow>
           WaitForState_loop (createWaitConf conn larn) el s0
             = ((Some (Listeners resp' ! 0), None), el + t0, s0')"
    and "3 * Minute < el + t0 \<Longrightarrow>
           WaitForState_loop (createWaitConf conn larn) el s0
             = ((None, Some TimeoutError), el + t0, s0')"
proof -
  have rf: "resourceAwsLbListenerRefreshFunc conn larn s0
      = ((Some (Listeners resp' ! 0), ''exists'', None), t0, s0')"
    using refresh_cases[OF assms(1)] assms(2) by simp
  show "WaitForState_loop (createWaitConf conn larn) el s0
             = ((Some (Listeners resp' ! 0), None), el + t0, s0')"
    if "el + t0 \<le> 3 * Minute"
    using that by (subst WaitForState_loop.simps) (simp add: rf createWaitConf_def)
  show "WaitForState_loop (createWaitConf conn larn) el s0
             = ((None, Some TimeoutError), el + t0, s0')"
    if "3 * Minute < el + t0"
    using that by (subst WaitForState_loop.simps) (simp add: rf createWaitConf_def)
qed

lemma create_wait_pending:
  assumes "DescribeListeners conn [larn] s0 = (r, t0, s0')"
    and "(\<exists>e'. r = Inl e' \<and> isAWSErr e' ErrCodeListenerNotFoundException []) \<or> r = Inr None"
  shows "el + t0 + interval < 3 * Minute \<Longrightarrow>
           WaitForState_loop (createWaitConf conn larn) el s0
             = WaitForState_loop (createWaitConf conn larn) (el + t0 + interval) s0'"
    and "3 * Minute \<le> el + t0 + interval \<Longrightarrow>
           WaitForState_loop (createWaitConf conn larn) el s0
             = ((None, Some TimeoutError), el + t0, s0')"
proof -
  have rf: "resourceAwsLbListenerRefreshFunc conn larn s0 = ((None, [], None), t0, s0')"
    using refresh_cases[OF assms(1)] assms(2) by auto
  show "WaitForState_loop (createWaitConf conn larn) el s0
             = WaitForState_loop (createWaitConf conn larn) (el + t0 + interval) s0'"
    if "el + t0 + interval < 3 * Minute"
    using that by (subst WaitForState_loop.simps) (simp add: rf createWaitConf_def)
  show "WaitForState_loop (createWaitConf conn larn) el s0
             = ((None, Some TimeoutError), el + t0, s0')"
    if late: "3 * Minute \<le> el + t0 + interval"
  proof (cases "3 * Minute < el + t0")
    case True
    then show ?thesis by (subst WaitForState_loop.simps) (simp add: rf createWaitConf_def)
  next
    case False
    then show ?thesis
      using late by (subst WaitForState_loop.simps) (simp add: rf createWaitConf_def)
  qed
qed

lemma create_wait_success:
  assumes "WaitForState_loop (createWaitConf conn larn) el s = ((res, None), tw, s2)"
  shows "\<exists>s0 t0 resp'. DescribeListeners conn [larn] s0 = (Inr (Some resp'), t0, s2)
           \<and> length (Listeners resp') = 1 \<and> res = Some (Listeners resp' ! 0)
           \<and> tw \<le> 3 * Minute"
proof -
  from WaitForState_loop_success[OF assms]
  obtain s0 t0 st0 where
    rf: "resourceAwsLbListenerRefreshFunc conn larn s0 = ((res, st0, None), t0, s2)"
    and st: "st0 = ''exists''" and tw: "tw \<le> 3 * Minute"
    by (auto simp: createWaitConf_def)
  obtain r t1 s1 where dl: "DescribeListeners conn [larn] s0 = (r, t1, s1)"
    by (cases "DescribeListeners conn [larn] s0")
  note rc = refresh_cases[OF dl]
  from rc rf st obtain resp' where "r = Inr (Some resp')" "length (Listeners resp') = 1"
    "res = Some (Listeners resp' ! 0)" "t1 = t0" "s1 = s2"
    by (auto split: sum.splits option.splits if_splits)
  then show ?thesis using dl tw by blast
qed

lemma create_wait_not_found:
  assumes "\<forall>s0. \<exists>e t0 s'. DescribeListeners conn [larn] s0 = (Inl e, t0, s')
             \<and> isAWSErr e ErrCodeListenerNotFoundException []"
  shows "\<exists>tw s2. WaitForState_loop (createWaitConf conn larn) el s = ((None, Some TimeoutError), tw, s2)"
proof -
  have "\<forall>s. \<exists>res st t s'. Refresh (createWaitConf conn larn) s = ((res, st, None), t, s')
             \<and> st \<in> set (Pending (createWaitConf conn larn))
             \<and> st \<notin> set (Target (createWaitConf conn larn))"
  proof
    fix s0
    from assms obtain e t0 s' where "DescribeListeners conn [larn] s0 = (Inl e, t0, s')"
      "isAWSErr e ErrCodeListenerNotFoundException []" by blast
    then have "resourceAwsLbListenerRefreshFunc conn larn s0 = ((None, [], None), t0, s')"
      by (simp add: resourceAwsLbListenerRefreshFunc_def)
    then show "\<exists>res st t s'. Refresh (createWaitConf conn larn) s0 = ((res, st, None), t, s')
             \<and> st \<in> set (Pending (createWaitConf conn larn))
             \<and> st \<notin> set (Target (createWaitConf conn larn))"
      by (simp add: createWaitConf_def)
  qed
  from WaitForState_loop_all_pending[OF this, of el s] show ?thesis .
qed

lemma create_after_response:
  assumes "Retry (5 * Minute) (createRetryFunc conn (createListenerInput d)) s = (Inr resp, t, s1)"
    and "Listeners resp = l # ls" and "ListenerArn l = Some larn"
    and "WaitForState_loop (createWaitConf conn larn) 0 s1 = ((res, err), tw, s2)"
  shows "resourceAwsLbListenerCreate conn d s =
     (case err of
        Some e \<Rightarrow> (ReturnError (ErrorWaiting larn), d\<lparr>d_Id := larn\<rparr>, t + tw, s2)
      | None \<Rightarrow>
          (case res of
             None \<Rightarrow> (Panic, d\<lparr>d_Id := larn\<rparr>, t + tw, s2)
           | Some listener \<Rightarrow>
               (ReturnNil, resourceAwsLbListenerReadData (d\<lparr>d_Id := larn\<rparr>) listener,
                t + tw, s2)))"
  using assms
  by (simp add: resourceAwsLbListenerCreate_def WaitForState_def Let_def
      split: option.splits)

subsection \<open>The claims about the listener resource\<close>

text \<open>
  Claim C1. Let a call of \<^verbatim>\<open>CreateListener\<close> made by \<^verbatim>\<open>resourceAwsLbListenerCreate\<close>
  fail with the error \<open>err\<close> after the time \<open>t\<close>, the retry loop having run for
  \<open>el\<close> so far (\<open>el = 0\<close> at the first call). The timeout of the loop is 5 minutes.
  \<^item> If \<open>err\<close> does not carry the certificate-not-found code, the loop ends at once
    with \<open>err\<close>, with no further call; when this is the first call, Create returns
    the error and the resource data is unchanged, so no ID is set.
  \<^item> If \<open>err\<close> carries the code and the 5 minutes have not passed, the call is
    retried after the interval.
  \<^item> If \<open>err\<close> carries the code and the 5 minutes have passed, the loop ends with
    \<open>err\<close>.
  \<^item> Whenever the loop ends with an error, Create returns that error and the resource
    data is unchanged.
  \<^item> If every call fails with the code, Create does return such an error, and not
    before the 5 minutes have passed: the retry is bounded.
  \<^verbatim>\<open>resource.Retry\<close> is the loop modelled from the spec above.
\<close>

theorem create_retries_on_certificate_not_found:
  assumes "CreateListener conn (createListenerInput d) s = (Inl err, t, s')"
  shows
    "(\<not> isAWSErr err ErrCodeCertificateNotFoundException [] \<longrightarrow>
        Retry_loop (5 * Minute) el (createRetryFunc conn (createListenerInput d)) s
          = (Inl err, el + t, s')
        \<and> resourceAwsLbListenerCreate conn d s = (ReturnError (ErrorCreating err), d, t, s'))
     \<and> (isAWSErr err ErrCodeCertificateNotFoundException [] \<and> el + t + interval < 5 * Minute \<longrightarrow>
        Retry_loop (5 * Minute) el (createRetryFunc conn (createListenerInput d)) s
          = Retry_loop (5 * Minute) (el + t + interval)
              (createRetryFunc conn (createListenerInput d)) s')
     \<and> (isAWSErr err ErrCodeCertificateNotFoundException [] \<and> 5 * Minute \<le> el + t + interval \<longrightarrow>
        Retry_loop (5 * Minute) el (createRetryFunc conn (createListenerInput d)) s
          = (Inl err, el + t, s'))
     \<and> (\<forall>s0 e t0 s1.
          Retry (5 * Minute) (createRetryFunc conn (createListenerInput d)) s0 = (Inl e, t0, s1) \<longrightarrow>
          resourceAwsLbListenerCreate conn d s0 = (ReturnError (ErrorCreating e), d, t0, s1))
     \<and> ((\<forall>s0. \<exists>e t0 s1. CreateListener conn (createListenerInput d) s0 = (Inl e, t0, s1)
             \<and> isAWSErr e ErrCodeCertificateNotFoundException []) \<longrightarrow>
        (\<forall>s0. \<exists>e t0 s1.
           resourceAwsLbListenerCreate conn d s0 = (ReturnError (ErrorCreating e), d, t0, s1)
           \<and> isAWSErr e ErrCodeCertificateNotFoundException []
           \<and> 5 * Minute \<le> t0 + interval))"
proof -
  let ?f = "createRetryFunc conn (createListenerInput d)"
  have 5: "\<exists>e t0 s1.
           resourceAwsLbListenerCreate conn d s0 = (ReturnError (ErrorCreating e), d, t0, s1)
           \<and> isAWSErr e ErrCodeCertificateNotFoundException []
           \<and> 5 * Minute \<le> t0 + interval"
    if every: "\<forall>s0. \<exists>e t0 s1. CreateListener conn (createListenerInput d) s0 = (Inl e, t0, s1)
             \<and> isAWSErr e ErrCodeCertificateNotFoundException []" for s0
  proof -
    have "\<forall>s. \<exists>e t s'. ?f s = (Inl (RetryableError e), t, s')
        \<and> isAWSErr e ErrCodeCertificateNotFoundException []"
    proof
      fix s
      from every obtain e t0 s1 where "CreateListener conn (createListenerInput d) s = (Inl e, t0, s1)"
        "isAWSErr e ErrCodeCertificateNotFoundException []" by blast
      then show "\<exists>e t s'. ?f s = (Inl (RetryableError e), t, s')
          \<and> isAWSErr e ErrCodeCertificateNotFoundException []"
        by (simp add: createRetryFunc_def)
    qed
    from Retry_loop_all_retryable[where f = ?f
        and P = "\<lambda>e. isAWSErr e ErrCodeCertificateNotFoundException []", OF this, of "5 * Minute" 0 s0]
    obtain e t0 s1 where "Retry_loop (5 * Minute) 0 ?f s0 = (Inl e, t0, s1)"
      "isAWSErr e ErrCodeCertificateNotFoundException []" "5 * Minute \<le> t0 + interval"
      by blast
    then show ?thesis using create_error[of conn d s0 e t0 s1] by (auto simp: Retry_def)
  qed
  have n: "?f s = (Inl (NonRetryableError err), t, s')"
    if "\<not> isAWSErr err ErrCodeCertificateNotFoundException []"
    using that assms by (simp add: createRetryFunc_def)
  have r: "?f s = (Inl (RetryableError err), t, s')"
    if "isAWSErr err ErrCodeCertificateNotFoundException []"
    using that assms by (simp add: createRetryFunc_def)
  have 1: "Retry_loop (5 * Minute) el ?f s = (Inl err, el + t, s')
      \<and> resourceAwsLbListenerCreate conn d s = (ReturnError (ErrorCreating err), d, t, s')"
    if "\<not> isAWSErr err ErrCodeCertificateNotFoundException []"
    using Retry_loop_abort[of ?f s err t s' "5 * Minute"] n[OF that] create_error[of conn d s err t s']
    by (simp add: Retry_def)
  have 2: "Retry_loop (5 * Minute) el ?f s = Retry_loop (5 * Minute) (el + t + interval) ?f s'"
    if "isAWSErr err ErrCodeCertificateNotFoundException []" "el + t + interval < 5 * Minute"
    using Retry_loop_again[of ?f s err t s' el "5 * Minute"] r[OF that(1)] that(2) by simp
  have 3: "Retry_loop (5 * Minute) el ?f s = (Inl err, el + t, s')"
    if "isAWSErr err ErrCodeCertificateNotFoundException []" "5 * Minute \<le> el + t + interval"
    using Retry_loop_timeout[of ?f s err t s' "5 * Minute" el] r[OF that(1)] that(2) by simp
  show ?thesis using 1 2 3 5 create_error[of conn d] by blast
qed

text \<open>
  The first call fails with the certificate-not-found code and is retried; the second
  fails with a validation error, which ends the loop: Create returns that error after
  two calls and the interval between them. With calls that always fail with the
  certificate-not-found code, Create gives up once the 5 minutes have passed.
\<close>

theorem create_retries_on_certificate_not_found_witness:
  "resourceAwsLbListenerCreate
     (scriptedConn Second (\<lambda>n. if n = 0 then Inl certificateNotFound else Inl validationError)
        unused unused unused) newData 0
   = (ReturnError (ErrorCreating validationError), newData, 2 * Second + interval, 2)
   \<and> (\<exists>e t0 s1.
        resourceAwsLbListenerCreate
          (scriptedConn Second (\<lambda>n. Inl certificateNotFound) unused unused unused) newData 0
        = (ReturnError (ErrorCreating e), newData, t0, s1)
        \<and> isAWSErr e ErrCodeCertificateNotFoundException []
        \<and> 5 * Minute \<le> t0 + interval)"
proof -
  let ?conn = "scriptedConn Second (\<lambda>n. if n = 0 then Inl certificateNotFound else Inl validationError)
        unused unused unused"
  let ?f = "createRetryFunc ?conn (createListenerInput newData)"
  have c0: "CreateListener ?conn (createListenerInput newData) 0 = (Inl certificateNotFound, Second, 1)"
    by (simp add: scriptedConn_def)
  have c1: "CreateListener ?conn (createListenerInput newData) 1 = (Inl validationError, Second, 2)"
    by (simp add: scriptedConn_def)
  have t: "isAWSErr certificateNotFound ErrCodeCertificateNotFoundException []"
    "\<not> isAWSErr validationError ErrCodeCertificateNotFoundException []"
    by (simp_all add: certificateNotFound_def validationError_def ErrCodeCertificateNotFoundException_def)
  have b: "0 + Second + interval < 5 * Minute"
    by (simp add: Minute_def Second_def Millisecond_def interval_def)
  have "Retry_loop (5 * Minute) 0 ?f 0 = Retry_loop (5 * Minute) (0 + Second + interval) ?f 1"
    using create_retries_on_certificate_not_found[OF c0, of 0] t b by blast
  moreover have "Retry_loop (5 * Minute) (0 + Second + interval) ?f 1
      = (Inl validationError, 0 + Second + interval + Second, 2)"
    using create_retries_on_certificate_not_found[OF c1, of "0 + Second + interval"] t by blast
  ultimately have "Retry (5 * Minute) ?f 0 = (Inl validationError, 2 * Second + interval, 2)"
    by (simp add: Retry_def)
  then have first: "resourceAwsLbListenerCreate ?conn newData 0
      = (ReturnError (ErrorCreating validationError), newData, 2 * Second + interval, 2)"
    using create_retries_on_certificate_not_found[OF c0, of 0] by blast
  let ?always = "scriptedConn Second (\<lambda>n. Inl certificateNotFound) unused unused unused"
  have a0: "CreateListener ?always (createListenerInput newData) 0
      = (Inl certificateNotFound, Second, 1)"
    by (simp add: scriptedConn_def)
  have every: "\<forall>s0. \<exists>e t0 s1. CreateListener ?always (createListenerInput newData) s0 = (Inl e, t0, s1)
      \<and> isAWSErr e ErrCodeCertificateNotFoundException []"
    using t(1) by (simp add: scriptedConn_def)
  have "\<exists>e t0 s1. resourceAwsLbListenerCreate ?always newData 0
        = (ReturnError (ErrorCreating e), newData, t0, s1)
        \<and> isAWSErr e ErrCodeCertificateNotFoundException []
        \<and> 5 * Minute \<le> t0 + interval"
    using create_retries_on_certificate_not_found[OF a0, of 0] every by blast
  then show ?thesis using first by blast
qed

text \<open>
  Claim C2, as the spec states it, fails: a call of \<^verbatim>\<open>CreateListener\<close> that succeeds
  with a response without listeners makes Create return an error at once. The service
  has been called once, the refresh function never, and no ID is set, although a
  describe call would have shown the listener.
\<close>

theorem create_without_listeners_does_not_wait:
  "resourceAwsLbListenerCreate
     (scriptedConn Second (\<lambda>n. Inr \<lparr>Listeners = []\<rparr>)
        (\<lambda>n. Inr (Some \<lparr>Listeners = [exampleListener]\<rparr>)) unused unused)
     newData 0
   = (ReturnError ErrorNoListeners, newData, Second, 1)"
  by (simp add: resourceAwsLbListenerCreate_def Retry_def Retry_loop.simps createRetryFunc_def
      scriptedConn_def)

text \<open>
  Claim C2, amended. Let the retried \<^verbatim>\<open>CreateListener\<close> call succeed with a response
  whose first listener has the ARN \<open>larn\<close>, after the time \<open>t\<close>, leaving the service
  in the state \<open>s1\<close>. Create sets the ID to \<open>larn\<close> and waits for the listener with
  the refresh function, the pending state \<^verbatim>\<open>""\<close>, the target state \<^verbatim>\<open>"exists"\<close> and
  a timeout of 3 minutes:
  \<^item> the refresh function reports the state \<^verbatim>\<open>"exists"\<close> exactly when the response
    of the describe call holds exactly one listener, and the pending empty state
    without error when the describe call fails with the listener-not-found code;
  \<^item> one turn of the wait, \<open>el\<close> being the time the wait has lasted when the describe
    call is made (\<open>el = 0\<close> at the first):
    a refresh error (the describe call fails with another error, or holds a number of
    listeners other than one) ends the wait at once with an error;
    a response with exactly one listener ends the wait with this listener when it comes
    before the 3 minutes have passed, and with the timeout error, no further call made,
    when it comes after;
    when the listener is not found, the refresh function is invoked again after the
    interval if the 3 minutes will not have passed by then, and the wait ends with the
    timeout error, no further call made, otherwise;
  \<^item> Create returns \<^verbatim>\<open>nil\<close>, the attributes set from the listener, when the wait ends
    with a listener, and the error of the wait, the ID being \<open>larn\<close>, when the wait
    ends with an error;
  \<^item> if Create returns \<^verbatim>\<open>nil\<close>, a describe call has shown exactly one listener, within
    3 minutes of the response;
  \<^item> if Create returns an error, it is the error of the wait and the ID is \<open>larn\<close>;
    Create does not panic;
  \<^item> if the timeout elapses before existence is observed, that is, if Create ends later
    than 3 minutes after the response, it returns an error;
  \<^item> if every describe call fails with the listener-not-found code, Create returns the
    error of the wait.
  \<^verbatim>\<open>WaitForState\<close> is the loop modelled from the spec above.
\<close>

theorem create_waits_for_listener_to_exist:
  assumes retry: "Retry (5 * Minute) (createRetryFunc conn (createListenerInput d)) s = (Inr resp, t, s1)"
    and ls: "Listeners resp = l # ls" and larn: "ListenerArn l = Some larn"
  shows
    "(\<forall>s0 r t0 s'. DescribeListeners conn [larn] s0 = (r, t0, s') \<longrightarrow>
        (fst (snd (fst (resourceAwsLbListenerRefreshFunc conn larn s0))) = ''exists''
           \<longleftrightarrow> (\<exists>resp'. r = Inr (Some resp') \<and> length (Listeners resp') = 1))
        \<and> ((\<exists>e. r = Inl e \<and> isAWSErr e ErrCodeListenerNotFoundException []) \<longrightarrow>
            resourceAwsLbListenerRefreshFunc conn larn s0 = ((None, [], None), t0, s')))
     \<and> (\<forall>el s0 r t0 s0'. DescribeListeners conn [larn] s0 = (r, t0, s0') \<longrightarrow>
          ((case r of
              Inl e' \<Rightarrow> \<not> isAWSErr e' ErrCodeListenerNotFoundException []
            | Inr None \<Rightarrow> False
            | Inr (Some resp') \<Rightarrow> length (Listeners resp') \<noteq> 1) \<longrightarrow>
           (\<exists>e. WaitForState_loop (createWaitConf conn larn) el s0
                   = ((None, Some e), el + t0, s0')))
          \<and> (\<forall>resp'. r = Inr (Some resp') \<and> length (Listeners resp') = 1 \<longrightarrow>
                (el + t0 \<le> 3 * Minute \<longrightarrow>
                   WaitForState_loop (createWaitConf conn larn) el s0
                     = ((Some (Listeners resp' ! 0), None), el + t0, s0'))
                \<and> (3 * Minute < el + t0 \<longrightarrow>
                   (\<exists>tw. WaitForState_loop (createWaitConf conn larn) el s0
                     = ((None, Some TimeoutError), tw, s0'))))
          \<and> (((\<exists>e'. r = Inl e' \<and> isAWSErr e' ErrCodeListenerNotFoundException [])
               \<or> r = Inr None) \<longrightarrow>
                (el + t0 + interval < 3 * Minute \<longrightarrow>
                   WaitForState_loop (createWaitConf conn larn) el s0
                     = WaitForState_loop (createWaitConf conn larn) (el + t0 + interval) s0')
                \<and> (3 * Minute \<le> el + t0 + interval \<longrightarrow>
                   (\<exists>tw. WaitForState_loop (createWaitConf conn larn) el s0
                     = ((None, Some TimeoutError), tw, s0')))))
     \<and> (\<forall>res err tw s2.
          WaitForState_loop (createWaitConf conn larn) 0 s1 = ((res, err), tw, s2) \<longrightarrow>
          (\<forall>listener. res = Some listener \<and> err = None \<longrightarrow>
             resourceAwsLbListenerCreate conn d s
               = (ReturnNil, resourceAwsLbListenerReadData (d\<lparr>d_Id := larn\<rparr>) listener, t + tw, s2))
          \<and> (err \<noteq> None \<longrightarrow>
             resourceAwsLbListenerCreate conn d s
               = (ReturnError (ErrorWaiting larn), d\<lparr>d_Id := larn\<rparr>, t + tw, s2)))
     \<and> (\<forall>d' t' s2. resourceAwsLbListenerCreate conn d s = (ReturnNil, d', t', s2) \<longrightarrow>
          (\<exists>s0 t0 resp'. DescribeListeners conn [larn] s0 = (Inr (Some resp'), t0, s2)
             \<and> length (Listeners resp') = 1
             \<and> d' = resourceAwsLbListenerReadData (d\<lparr>d_Id := larn\<rparr>) (Listeners resp' ! 0))
          \<and> t' \<le> t + 3 * Minute)
     \<and> (\<forall>e d' t' s2. resourceAwsLbListenerCreate conn d s = (ReturnError e, d', t', s2) \<longrightarrow>
          e = ErrorWaiting larn \<and> d' = d\<lparr>d_Id := larn\<rparr>)
     \<and> fst (resourceAwsLbListenerCreate conn d s) \<noteq> Panic
     \<and> (\<forall>out d' t' s2. resourceAwsLbListenerCreate conn d s = (out, d', t', s2)
          \<and> t + 3 * Minute < t' \<longrightarrow> out = ReturnError (ErrorWaiting larn))
     \<and> ((\<forall>s0. \<exists>e t0 s'. DescribeListeners conn [larn] s0 = (Inl e, t0, s')
             \<and> isAWSErr e ErrCodeListenerNotFoundException []) \<longrightarrow>
        (\<exists>t' s2. resourceAwsLbListenerCreate conn d s
                    = (ReturnError (ErrorWaiting larn), d\<lparr>d_Id := larn\<rparr>, t', s2)))"
proof -
  obtain x tw s2 where w0: "WaitForState_loop (createWaitConf conn larn) 0 s1 = (x, tw, s2)"
    by (metis prod_cases3)
  obtain res err where x: "x = (res, err)" by (cases x)
  have w: "WaitForState_loop (createWaitConf conn larn) 0 s1 = ((res, err), tw, s2)"
    using w0 x by simp
  note cr = create_after_response[OF retry ls larn w]
  have found: "\<exists>s0 t0 resp'. DescribeListeners conn [larn] s0 = (Inr (Some resp'), t0, s2)
           \<and> length (Listeners resp') = 1 \<and> res = Some (Listeners resp' ! 0)
           \<and> tw \<le> 3 * Minute"
    if "err = None"
    using create_wait_success[of conn larn 0 s1 res tw s2] w that by simp
  have A: "\<forall>s0 r t0 s'. DescribeListeners conn [larn] s0 = (r, t0, s') \<longrightarrow>
        (fst (snd (fst (resourceAwsLbListenerRefreshFunc conn larn s0))) = ''exists''
           \<longleftrightarrow> (\<exists>resp'. r = Inr (Some resp') \<and> length (Listeners resp') = 1))
        \<and> ((\<exists>e. r = Inl e \<and> isAWSErr e ErrCodeListenerNotFoundException []) \<longrightarrow>
            resourceAwsLbListenerRefreshFunc conn larn s0 = ((None, [], None), t0, s'))"
  proof (intro allI impI)
    fix s0 r t0 s'
    assume "DescribeListeners conn [larn] s0 = (r, t0, s')"
    from refresh_cases[OF this]
    show "(fst (snd (fst (resourceAwsLbListenerRefreshFunc conn larn s0))) = ''exists''
           \<longleftrightarrow> (\<exists>resp'. r = Inr (Some resp') \<and> length (Listeners resp') = 1))
        \<and> ((\<exists>e. r = Inl e \<and> isAWSErr e ErrCodeListenerNotFoundException []) \<longrightarrow>
            resourceAwsLbListenerRefreshFunc conn larn s0 = ((None, [], None), t0, s'))"
      by (auto split: sum.splits option.splits)
  qed
  have L: "\<forall>el s0 r t0 s0'. DescribeListeners conn [larn] s0 = (r, t0, s0') \<longrightarrow>
          ((case r of
              Inl e' \<Rightarrow> \<not> isAWSErr e' ErrCodeListenerNotFoundException []
            | Inr None \<Rightarrow> False
            | Inr (Some resp') \<Rightarrow> length (Listeners resp') \<noteq> 1) \<longrightarrow>
           (\<exists>e. WaitForState_loop (createWaitConf conn larn) el s0
                   = ((None, Some e), el + t0, s0')))
          \<and> (\<forall>resp'. r = Inr (Some resp') \<and> length (Listeners resp') = 1 \<longrightarrow>
                (el + t0 \<le> 3 * Minute \<longrightarrow>
                   WaitForState_loop (createWaitConf conn larn) el s0
                     = ((Some (Listeners resp' ! 0), None), el + t0, s0'))
                \<and> (3 * Minute < el + t0 \<longrightarrow>
                   (\<exists>tw. WaitForState_loop (createWaitConf conn larn) el s0
                     = ((None, Some TimeoutError), tw, s0'))))
          \<and> (((\<exists>e'. r = Inl e' \<and> isAWSErr e' ErrCodeListenerNotFoundException [])
               \<or> r = Inr None) \<longrightarrow>
                (el + t0 + interval < 3 * Minute \<longrightarrow>
                   WaitForState_loop (createWaitConf conn larn) el s0
                     = WaitForState_loop (createWaitConf conn larn) (el + t0 + interval) s0')
                \<and> (3 * Minute \<le> el + t0 + interval \<longrightarrow>
                   (\<exists>tw. WaitForState_loop (createWaitConf conn larn) el s0
                     = ((None, Some TimeoutError), tw, s0'))))"
  proof (intro allI impI conjI)
    fix el s0 r t0 s0'
    assume dl: "DescribeListeners conn [larn] s0 = (r, t0, s0')"
    {
      assume "case r of
              Inl e' \<Rightarrow> \<not> isAWSErr e' ErrCodeListenerNotFoundException []
            | Inr None \<Rightarrow> False
            | Inr (Some resp') \<Rightarrow> length (Listeners resp') \<noteq> 1"
      then show "\<exists>e. WaitForState_loop (createWaitConf conn larn) el s0
                   = ((None, Some e), el + t0, s0')"
        by (rule create_wait_refresh_error[OF dl])
    }
    {
      fix resp'
      assume one: "r = Inr (Some resp') \<and> length (Listeners resp') = 1"
      then have dl': "DescribeListeners conn [larn] s0 = (Inr (Some resp'), t0, s0')"
        using dl by simp
      {
        assume "el + t0 \<le> 3 * Minute"
        then show "WaitForState_loop (createWaitConf conn larn) el s0
                     = ((Some (Listeners resp' ! 0), None), el + t0, s0')"
          using create_wait_found(1)[OF dl', of el] one by simp
      }
      {
        assume "3 * Minute < el + t0"
        then show "\<exists>tw. WaitForState_loop (createWaitConf conn larn) el s0
                     = ((None, Some TimeoutError), tw, s0')"
          using create_wait_found(2)[OF dl', of el] one by simp
      }
    }
    {
      assume nf: "(\<exists>e'. r = Inl e' \<and> isAWSErr e' ErrCodeListenerNotFoundException [])
               \<or> r = Inr None"
      {
        assume "el + t0 + interval < 3 * Minute"
        then show "WaitForState_loop (createWaitConf conn larn) el s0
                     = WaitForState_loop (createWaitConf conn larn) (el + t0 + interval) s0'"
          by (rule create_wait_pending(1)[OF dl nf])
      }
      {
        assume "3 * Minute \<le> el + t0 + interval"
        then show "\<exists>tw. WaitForState_loop (createWaitConf conn larn) el s0
                     = ((None, Some TimeoutError), tw, s0')"
          using create_wait_pending(2)[OF dl nf, of el] by simp
      }
    }
  qed
  have C: "\<forall>res err tw s2.
          WaitForState_loop (createWaitConf conn larn) 0 s1 = ((res, err), tw, s2) \<longrightarrow>
          (\<forall>listener. res = Some listener \<and> err = None \<longrightarrow>
             resourceAwsLbListenerCreate conn d s
               = (ReturnNil, resourceAwsLbListenerReadData (d\<lparr>d_Id := larn\<rparr>) listener, t + tw, s2))
          \<and> (err \<noteq> None \<longrightarrow>
             resourceAwsLbListenerCreate conn d s
               = (ReturnError (ErrorWaiting larn), d\<lparr>d_Id := larn\<rparr>, t + tw, s2))"
  proof (intro allI impI)
    fix res' err' tw' s2'
    assume "WaitForState_loop (createWaitConf conn larn) 0 s1 = ((res', err'), tw', s2')"
    from create_after_response[OF retry ls larn this]
    show "(\<forall>listener. res' = Some listener \<and> err' = None \<longrightarrow>
             resourceAwsLbListenerCreate conn d s
               = (ReturnNil, resourceAwsLbListenerReadData (d\<lparr>d_Id := larn\<rparr>) listener, t + tw', s2'))
          \<and> (err' \<noteq> None \<longrightarrow>
             resourceAwsLbListenerCreate conn d s
               = (ReturnError (ErrorWaiting larn), d\<lparr>d_Id := larn\<rparr>, t + tw', s2'))"
      by (auto split: option.splits)
  qed
  have B1: "\<forall>d' t' s2. resourceAwsLbListenerCreate conn d s = (ReturnNil, d', t', s2) \<longrightarrow>
          (\<exists>s0 t0 resp'. DescribeListeners conn [larn] s0 = (Inr (Some resp'), t0, s2)
             \<and> length (Listeners resp') = 1
             \<and> d' = resourceAwsLbListenerReadData (d\<lparr>d_Id := larn\<rparr>) (Listeners resp' ! 0))
          \<and> t' \<le> t + 3 * Minute"
  proof (intro allI impI)
    fix d' t' s2'
    assume c: "resourceAwsLbListenerCreate conn d s = (ReturnNil, d', t', s2')"
    then have e: "err = None" using cr by (auto split: option.splits)
    from found[OF e] obtain s0 t0 resp' where
      f: "DescribeListeners conn [larn] s0 = (Inr (Some resp'), t0, s2)"
      "length (Listeners resp') = 1" "res = Some (Listeners resp' ! 0)" "tw \<le> 3 * Minute"
      by blast
    then have "d' = resourceAwsLbListenerReadData (d\<lparr>d_Id := larn\<rparr>) (Listeners resp' ! 0)"
      "t' = t + tw" "s2' = s2"
      using c cr e by simp_all
    then show "(\<exists>s0 t0 resp'. DescribeListeners conn [larn] s0 = (Inr (Some resp'), t0, s2')
             \<and> length (Listeners resp') = 1
             \<and> d' = resourceAwsLbListenerReadData (d\<lparr>d_Id := larn\<rparr>) (Listeners resp' ! 0))
          \<and> t' \<le> t + 3 * Minute"
      using f by auto
  qed
  have B2: "\<forall>e d' t' s2. resourceAwsLbListenerCreate conn d s = (ReturnError e, d', t', s2) \<longrightarrow>
          e = ErrorWaiting larn \<and> d' = d\<lparr>d_Id := larn\<rparr>"
    using cr by (auto split: option.splits)
  have B3: "fst (resourceAwsLbListenerCreate conn d s) \<noteq> Panic"
    using cr found by (auto split: option.splits)
  have G: "\<forall>out d' t' s2. resourceAwsLbListenerCreate conn d s = (out, d', t', s2)
          \<and> t + 3 * Minute < t' \<longrightarrow> out = ReturnError (ErrorWaiting larn)"
  proof (intro allI impI)
    fix out d' t' s2'
    assume c: "resourceAwsLbListenerCreate conn d s = (out, d', t', s2')
          \<and> t + 3 * Minute < t'"
    show "out = ReturnError (ErrorWaiting larn)"
    proof (cases err)
      case (Some e)
      then show ?thesis using c cr by simp
    next
      case None
      from found[OF None] obtain listener where "res = Some listener" "tw \<le> 3 * Minute"
        by blast
      then have "t' = t + tw" using c cr None by simp
      then show ?thesis using c \<open>tw \<le> 3 * Minute\<close> by simp
    qed
  qed
  have B4: "(\<forall>s0. \<exists>e t0 s'. DescribeListeners conn [larn] s0 = (Inl e, t0, s')
             \<and> isAWSErr e ErrCodeListenerNotFoundException []) \<longrightarrow>
        (\<exists>t' s2. resourceAwsLbListenerCreate conn d s
                    = (ReturnError (ErrorWaiting larn), d\<lparr>d_Id := larn\<rparr>, t', s2))"
  proof
    assume nf: "\<forall>s0. \<exists>e t0 s'. DescribeListeners conn [larn] s0 = (Inl e, t0, s')
             \<and> isAWSErr e ErrCodeListenerNotFoundException []"
    from create_wait_not_found[OF nf, of 0 s1] w
    have "err = Some TimeoutError" by auto
    then show "\<exists>t' s2. resourceAwsLbListenerCreate conn d s
                    = (ReturnError (ErrorWaiting larn), d\<lparr>d_Id := larn\<rparr>, t', s2)"
      using cr by simp
  qed
  show ?thesis
    by (intro conjI) (fact A L C B1 B2 B3 G B4)+
qed

text \<open>
  Four runs of Create after a response with the listener. The listener is not found by
  the first describe call and found by the second: Create returns \<^verbatim>\<open>nil\<close> after three
  calls. It is never found: Create returns the error of the wait. The calls take four
  minutes each and the describe call finds the listener only after the timeout: Create
  returns the error of the wait after this one describe call. The describe call returns
  two listeners: Create returns the error of the wait after this one describe call.
\<close>

theorem create_waits_for_listener_to_exist_witness:
  "resourceAwsLbListenerCreate
     (scriptedConn Second (\<lambda>n. Inr \<lparr>Listeners = [exampleListener]\<rparr>)
        (\<lambda>n. if n = 1 then Inl listenerNotFound else Inr (Some \<lparr>Listeners = [exampleListener]\<rparr>))
        unused unused)
     newData 0
   = (ReturnNil, resourceAwsLbListenerReadData exampleData exampleListener, 3 * Second + interval, 3)
   \<and> (\<exists>t' s2.
        resourceAwsLbListenerCreate
          (scriptedConn Second (\<lambda>n. Inr \<lparr>Listeners = [exampleListener]\<rparr>)
             (\<lambda>n. Inl listenerNotFound) unused unused)
          newData 0
        = (ReturnError (ErrorWaiting ''arn:listener/1''), exampleData, t', s2))
   \<and> (\<exists>t'.
        resourceAwsLbListenerCreate
          (scriptedConn (4 * Minute) (\<lambda>n. Inr \<lparr>Listeners = [exampleListener]\<rparr>)
             (\<lambda>n. Inr (Some \<lparr>Listeners = [exampleListener]\<rparr>)) unused unused)
          newData 0
        = (ReturnError (ErrorWaiting ''arn:listener/1''), exampleData, t', 2))
   \<and> resourceAwsLbListenerCreate
        (scriptedConn Second (\<lambda>n. Inr \<lparr>Listeners = [exampleListener]\<rparr>)
           (\<lambda>n. Inr (Some \<lparr>Listeners = [exampleListener, exampleListener]\<rparr>)) unused unused)
        newData 0
     = (ReturnError (ErrorWaiting ''arn:listener/1''), exampleData, 2 * Second, 2)"
proof -
  let ?out = "\<lparr>Listeners = [exampleListener]\<rparr>"
  let ?ok = "scriptedConn Second (\<lambda>n. Inr ?out)
        (\<lambda>n. if n = 1 then Inl listenerNotFound else Inr (Some ?out)) unused unused"
  let ?nf = "scriptedConn Second (\<lambda>n. Inr ?out) (\<lambda>n. Inl listenerNotFound) unused unused"
  let ?slow = "scriptedConn (4 * Minute) (\<lambda>n. Inr ?out) (\<lambda>n. Inr (Some ?out)) unused unused"
  let ?two = "scriptedConn Second (\<lambda>n. Inr ?out)
        (\<lambda>n. Inr (Some \<lparr>Listeners = [exampleListener, exampleListener]\<rparr>)) unused unused"
  let ?W = "\<lambda>conn. WaitForState_loop (createWaitConf conn ''arn:listener/1'')"
  have l: "Listeners ?out = exampleListener # []" by simp
  have a: "ListenerArn exampleListener = Some ''arn:listener/1''" by (simp add: exampleListener_def)
  have d: "newData\<lparr>d_Id := ''arn:listener/1''\<rparr> = exampleData" by (simp add: exampleData_def)
  have nfe: "isAWSErr listenerNotFound ErrCodeListenerNotFoundException []"
    by (simp add: listenerNotFound_def ErrCodeListenerNotFoundException_def)
  have times: "0 + Second + interval < 3 * Minute" "Second + interval + Second \<le> 3 * Minute"
    "3 * Minute < 0 + 4 * Minute"
    by (simp_all add: Minute_def Second_def Millisecond_def interval_def)

  have r1: "Retry (5 * Minute) (createRetryFunc ?ok (createListenerInput newData)) 0
      = (Inr ?out, Second, 1)"
    by (simp add: Retry_def Retry_loop.simps createRetryFunc_def scriptedConn_def)
  note T1 = create_waits_for_listener_to_exist[OF r1 l a]
  have d11: "DescribeListeners ?ok [''arn:listener/1''] 1 = (Inl listenerNotFound, Second, 2)"
    by (simp add: scriptedConn_def)
  have d12: "DescribeListeners ?ok [''arn:listener/1''] 2 = (Inr (Some ?out), Second, 3)"
    by (simp add: scriptedConn_def)
  have "?W ?ok 0 1 = ?W ?ok (0 + Second + interval) 2"
    using T1[THEN conjunct2, THEN conjunct1, rule_format, OF d11, of 0] nfe times(1) by blast
  moreover have "?W ?ok (0 + Second + interval) 2
      = ((Some (Listeners ?out ! 0), None), 0 + Second + interval + Second, 3)"
    using T1[THEN conjunct2, THEN conjunct1, rule_format, OF d12, of "0 + Second + interval"] times(2)
    by simp
  ultimately have w1: "?W ?ok 0 1 = ((Some exampleListener, None), 2 * Second + interval, 3)"
    by simp
  have one: "resourceAwsLbListenerCreate ?ok newData 0
      = (ReturnNil, resourceAwsLbListenerReadData exampleData exampleListener, 3 * Second + interval, 3)"
    using T1[THEN conjunct2, THEN conjunct2, THEN conjunct1, rule_format, OF w1] d by simp

  have r2: "Retry (5 * Minute) (createRetryFunc ?nf (createListenerInput newData)) 0
      = (Inr ?out, Second, 1)"
    by (simp add: Retry_def Retry_loop.simps createRetryFunc_def scriptedConn_def)
  have nf: "\<forall>s0. \<exists>e t0 s'. DescribeListeners ?nf [''arn:listener/1''] s0 = (Inl e, t0, s')
             \<and> isAWSErr e ErrCodeListenerNotFoundException []"
    using nfe by (simp add: scriptedConn_def)
  have never: "\<exists>t' s2. resourceAwsLbListenerCreate ?nf newData 0
        = (ReturnError (ErrorWaiting ''arn:listener/1''), exampleData, t', s2)"
    using create_waits_for_listener_to_exist[OF r2 l a] nf d by simp

  have r3: "Retry (5 * Minute) (createRetryFunc ?slow (createListenerInput newData)) 0
      = (Inr ?out, 4 * Minute, 1)"
    by (simp add: Retry_def Retry_loop.simps createRetryFunc_def scriptedConn_def)
  note T3 = create_waits_for_listener_to_exist[OF r3 l a]
  have d3: "DescribeListeners ?slow [''arn:listener/1''] 1 = (Inr (Some ?out), 4 * Minute, 2)"
    by (simp add: scriptedConn_def)
  obtain tw where w3: "?W ?slow 0 1 = ((None, Some TimeoutError), tw, 2)"
    using T3[THEN conjunct2, THEN conjunct1, rule_format, OF d3, of 0] times(3) by auto
  have late: "\<exists>t'. resourceAwsLbListenerCreate ?slow newData 0
      = (ReturnError (ErrorWaiting ''arn:listener/1''), exampleData, t', 2)"
    using T3[THEN conjunct2, THEN conjunct2, THEN conjunct1, rule_format, OF w3] d by simp

  have r4: "Retry (5 * Minute) (createRetryFunc ?two (createListenerInput newData)) 0
      = (Inr ?out, Second, 1)"
    by (simp add: Retry_def Retry_loop.simps createRetryFunc_def scriptedConn_def)
  note T4 = create_waits_for_listener_to_exist[OF r4 l a]
  have d4: "DescribeListeners ?two [''arn:listener/1''] 1
      = (Inr (Some \<lparr>Listeners = [exampleListener, exampleListener]\<rparr>), Second, 2)"
    by (simp add: scriptedConn_def)
  obtain e where w4: "?W ?two 0 1 = ((None, Some e), 0 + Second, 2)"
    using T4[THEN conjunct2, THEN conjunct1, rule_format, OF d4, of 0] by auto
  have two: "resourceAwsLbListenerCreate ?two newData 0
      = (ReturnError (ErrorWaiting ''arn:listener/1''), exampleData, 2 * Second, 2)"
    using T4[THEN conjunct2, THEN conjunct2, THEN conjunct1, rule_format, OF w4] d by simp

  show ?thesis using one never late two by blast
qed




text \<open>
  Update retries \<^verbatim>\<open>ModifyListener\<close> after a certificate-not-found error and then reads
  the listener.
\<close>

lemma update_retries_then_reads:
  "resourceAwsLbListenerUpdate
     (scriptedConn Second unused (\<lambda>n. Inr (Some \<lparr>Listeners = [exampleListener]\<rparr>))
        (\<lambda>n. if n = 0 then Inl certificateNotFound else Inr \<lparr>Listeners = [exampleListener]\<rparr>) unused)
     exampleData 0
   = (ReturnNil, resourceAwsLbListenerReadData exampleData exampleListener, 3 * Second + interval, 3)"
  by (simp add: resourceAwsLbListenerUpdate_def Retry_def Retry_loop.simps updateRetryFunc_def
      resourceAwsLbListenerRead_def resourceAwsLbListenerRefreshFunc_def
      scriptedConn_def certificateNotFound_def ErrCodeCertificateNotFoundException_def
      Minute_def Second_def Millisecond_def interval_def)

text \<open>
  Claim C5. The functions Create and Update pass to \<^verbatim>\<open>resource.Retry\<close> apply the same
  policy to the result of their call, retryable exactly on the certificate-not-found
  code, and both are retried with the timeout of 5 minutes. Hence, when the calls of
  \<^verbatim>\<open>CreateListener\<close> and \<^verbatim>\<open>ModifyListener\<close> have the same error outcome in every
  state, the two retries have the same error outcome too (the same error or none, after
  the same time, in the same state), and Create returns the error of its call exactly
  when Update returns the error of its call.
\<close>

theorem create_and_update_share_retry_policy:
  assumes "\<forall>s. errorOutcome (CreateListener conn p s) = errorOutcome (ModifyListener conn' q s)"
  shows
    "errorOutcome (Retry (5 * Minute) (createRetryFunc conn p) s)
       = errorOutcome (Retry (5 * Minute) (updateRetryFunc conn' q) s)
     \<and> createRetryFunc conn p s
       = (case CreateListener conn p s of (r, t, s') \<Rightarrow> (certificateNotFoundPolicy r, t, s'))
     \<and> updateRetryFunc conn' q s
       = (case ModifyListener conn' q s of (r, t, s') \<Rightarrow>
            (certificateNotFoundPolicy (map_sum id (\<lambda>resp. ()) r), t, s'))
     \<and> (p = createListenerInput d \<and> q = modifyListenerInput d' \<longrightarrow>
        (resourceAwsLbListenerCreate conn d s = (ReturnError (ErrorCreating e), d, t, s')
         \<longleftrightarrow> resourceAwsLbListenerUpdate conn' d' s = (ReturnError (ErrorModifying e), d', t, s')))"
proof -
  have "\<forall>s. errorOutcome (createRetryFunc conn p s) = errorOutcome (updateRetryFunc conn' q s)"
  proof
    fix s
    from assms have "errorOutcome (CreateListener conn p s) = errorOutcome (ModifyListener conn' q s)"
      by (rule spec)
    then show "errorOutcome (createRetryFunc conn p s) = errorOutcome (updateRetryFunc conn' q s)"
      by (rule retryFuncs_errorOutcome)
  qed
  then have eq: "errorOutcome (Retry (5 * Minute) (createRetryFunc conn p) s)
       = errorOutcome (Retry (5 * Minute) (updateRetryFunc conn' q) s)"
    unfolding Retry_def by (rule Retry_loop_errorOutcome)
  have life: "resourceAwsLbListenerCreate conn d s = (ReturnError (ErrorCreating e), d, t, s')
         \<longleftrightarrow> resourceAwsLbListenerUpdate conn' d' s = (ReturnError (ErrorModifying e), d', t, s')"
    if pq: "p = createListenerInput d" "q = modifyListenerInput d'"
  proof -
    have "resourceAwsLbListenerCreate conn d s = (ReturnError (ErrorCreating e), d, t, s')
        \<longleftrightarrow> Retry (5 * Minute) (createRetryFunc conn p) s = (Inl e, t, s')"
      using create_ErrorCreating[of conn d s e d t s'] create_error[of conn d s e t s'] pq by blast
    also have "\<dots> \<longleftrightarrow> Retry (5 * Minute) (updateRetryFunc conn' q) s = (Inl e, t, s')"
      using eq errorOutcome_Inl by metis
    also have "\<dots> \<longleftrightarrow> resourceAwsLbListenerUpdate conn' d' s = (ReturnError (ErrorModifying e), d', t, s')"
      using update_ErrorModifying[of conn' d' s e d' t s'] pq
      by (auto simp: resourceAwsLbListenerUpdate_def)
    finally show ?thesis .
  qed
  show ?thesis
    using eq life createRetryFunc_policy[of conn p s] updateRetryFunc_policy[of conn' q s] by blast
qed

text \<open>
  A connection whose create and modify calls fail alike: certificate not found, then a
  validation error. Both retries end with the validation error after two calls, and
  Create returns it as Update does.
\<close>

theorem create_and_update_share_retry_policy_witness:
  "errorOutcome (Retry (5 * Minute)
      (createRetryFunc
         (scriptedConn Second (\<lambda>n. if n = 0 then Inl certificateNotFound else Inl validationError)
            unused (\<lambda>n. if n = 0 then Inl certificateNotFound else Inl validationError) unused)
         (createListenerInput newData)) 0)
   = (Inl validationError, 2 * Second + interval, 2)
   \<and> errorOutcome (Retry (5 * Minute)
      (updateRetryFunc
         (scriptedConn Second (\<lambda>n. if n = 0 then Inl certificateNotFound else Inl validationError)
            unused (\<lambda>n. if n = 0 then Inl certificateNotFound else Inl validationError) unused)
         (modifyListenerInput exampleData)) 0)
   = (Inl validationError, 2 * Second + interval, 2)
   \<and> resourceAwsLbListenerCreate
        (scriptedConn Second (\<lambda>n. if n = 0 then Inl certificateNotFound else Inl validationError)
            unused (\<lambda>n. if n = 0 then Inl certificateNotFound else Inl validationError) unused)
        newData 0
   = (ReturnError (ErrorCreating validationError), newData, 2 * Second + interval, 2)"
proof -
  let ?conn = "scriptedConn Second (\<lambda>n. if n = 0 then Inl certificateNotFound else Inl validationError)
            unused (\<lambda>n. if n = 0 then Inl certificateNotFound else Inl validationError) unused"
  have h: "\<forall>s. errorOutcome (CreateListener ?conn (createListenerInput newData) s)
      = errorOutcome (ModifyListener ?conn (modifyListenerInput exampleData) s)"
    by (simp add: scriptedConn_def errorOutcome_def)
  have u: "errorOutcome (Retry (5 * Minute) (updateRetryFunc ?conn (modifyListenerInput exampleData)) 0)
      = (Inl validationError, 2 * Second + interval, 2)"
    by (simp add: Retry_def Retry_loop.simps updateRetryFunc_def errorOutcome_def
        scriptedConn_def certificateNotFound_def validationError_def
        ErrCodeCertificateNotFoundException_def Minute_def Second_def Millisecond_def interval_def)
  have m: "resourceAwsLbListenerUpdate ?conn exampleData 0
      = (ReturnError (ErrorModifying validationError), exampleData, 2 * Second + interval, 2)"
    by (simp add: resourceAwsLbListenerUpdate_def Retry_def Retry_loop.simps updateRetryFunc_def
        scriptedConn_def certificateNotFound_def validationError_def
        ErrCodeCertificateNotFoundException_def Minute_def Second_def Millisecond_def interval_def)
  have "resourceAwsLbListenerCreate ?conn newData 0
      = (ReturnError (ErrorCreating validationError), newData, 2 * Second + interval, 2)"
    using create_and_update_share_retry_policy[OF h, where s = 0 and d = newData
        and d' = exampleData and e = validationError and t = "2 * Second + interval" and s' = 2] m
    by blast
  then show ?thesis
    using create_and_update_share_retry_policy[OF h, of 0] u by simp
qed

text \<open>
  Claim C7, as the spec states it, fails: when the describe call succeeds with a
  response that holds no listener, Read returns an error and keeps the ID.
\<close>

theorem read_empty_response_is_an_error:
  "resourceAwsLbListenerRead
     (scriptedConn Second unused (\<lambda>n. Inr (Some \<lparr>Listeners = []\<rparr>)) unused unused) exampleData 0
   = (ReturnError (ErrorRetrieving (ErrorRetrievingCount ''arn:listener/1'' 0)), exampleData, Second, 1)"
  by (simp add: resourceAwsLbListenerRead_def resourceAwsLbListenerRefreshFunc_def scriptedConn_def
      exampleData_def)

text \<open>
  Claim C7, amended. What Read does is decided by the one describe call it makes:
  \<^item> it clears the ID and returns \<^verbatim>\<open>nil\<close> when the call fails with the
    listener-not-found code or returns a nil response;
  \<^item> it returns an error and keeps the resource data when the call fails with another
    error, and also when the response holds a number of listeners other than one;
  \<^item> it returns \<^verbatim>\<open>nil\<close> and sets the attributes from the listener when the response
    holds exactly one.
\<close>

theorem read_outcomes:
  assumes "DescribeListeners conn [d_Id d] s = (r, t, s')"
  shows "resourceAwsLbListenerRead conn d s =
     (case r of
        Inl err \<Rightarrow>
          if isAWSErr err ErrCodeListenerNotFoundException []
          then (ReturnNil, d\<lparr>d_Id := []\<rparr>, t, s')
          else (ReturnError (ErrorRetrieving (ErrorRetrieving err)), d, t, s')
      | Inr None \<Rightarrow> (ReturnNil, d\<lparr>d_Id := []\<rparr>, t, s')
      | Inr (Some resp) \<Rightarrow>
          if length (Listeners resp) = 1
          then (ReturnNil, resourceAwsLbListenerReadData d (Listeners resp ! 0), t, s')
          else (ReturnError (ErrorRetrieving (ErrorRetrievingCount (d_Id d) (length (Listeners resp)))),
                d, t, s'))"
  by (simp add: resourceAwsLbListenerRead_def refresh_cases[OF assms] split: sum.splits option.splits)

text \<open>
  A describe call that fails with the listener-not-found code, one that fails with
  another error, and one that returns the listener.
\<close>

theorem read_outcomes_witness:
  "resourceAwsLbListenerRead
     (scriptedConn Second unused (\<lambda>n. Inl listenerNotFound) unused unused) exampleData 0
   = (ReturnNil, exampleData\<lparr>d_Id := []\<rparr>, Second, 1)
   \<and> resourceAwsLbListenerRead
     (scriptedConn Second unused (\<lambda>n. Inl (OtherError ''connection reset'')) unused unused) exampleData 0
   = (ReturnError (ErrorRetrieving (ErrorRetrieving (OtherError ''connection reset''))), exampleData, Second, 1)
   \<and> resourceAwsLbListenerRead
     (scriptedConn Second unused (\<lambda>n. Inr (Some \<lparr>Listeners = [exampleListener]\<rparr>)) unused unused) exampleData 0
   = (ReturnNil, resourceAwsLbListenerReadData exampleData exampleListener, Second, 1)"
  using read_outcomes[of "scriptedConn Second unused (\<lambda>n. Inl listenerNotFound) unused unused" exampleData 0
            "Inl listenerNotFound" Second 1]
        read_outcomes[of "scriptedConn Second unused (\<lambda>n. Inl (OtherError ''connection reset'')) unused unused" exampleData 0
            "Inl (OtherError ''connection reset'')" Second 1]
        read_outcomes[of "scriptedConn Second unused (\<lambda>n. Inr (Some \<lparr>Listeners = [exampleListener]\<rparr>)) unused unused" exampleData 0
            "Inr (Some \<lparr>Listeners = [exampleListener]\<rparr>)" Second 1]
  by (simp add: scriptedConn_def listenerNotFound_def ErrCodeListenerNotFoundException_def)


end
